theory Spec2Isabelle
  imports Main "HOL-Library.Word"
begin

section \<open>Data model of the virtual-group message server\<close>

text \<open>
  The handlers of \<^verbatim>\<open>x/virtualgroup/keeper/msg_server.go\<close> are embedded as
  functions from the chain state (the \<^verbatim>\<open>sdk.Context\<close> with its stores) and a request
  to a result and the state the handler leaves behind. An error return and a panic are both
  values of \<open>error\<close>; the state component is the store as the handler has written it
  up to the point where it returned.
\<close>

type_synonym u32 = "32 word"
type_synonym u64 = "64 word"
type_synonym address = string

text \<open>The named upgrade milestones queried through \<^verbatim>\<open>ctx.IsUpgraded\<close>.\<close>

datatype Upgrade = Nagqu | Pampas | Manchurian | Hulunbeier

text \<open>
  Modelled from the spec: the status enumeration of a storage provider (declared in the
  sp module, which is not part of the source file): in-service, in-maintenance,
  graceful-exiting, forced-exiting, exited.
\<close>

datatype Status =
    STATUS_IN_SERVICE
  | STATUS_IN_MAINTENANCE
  | STATUS_GRACEFUL_EXITING
  | STATUS_FORCED_EXITING
  | STATUS_EXITED

text \<open>
  The registered errors the handlers return. A wrapped error (\<^verbatim>\<open>Wrapf\<close>) is the
  registered error it wraps; \<open>Panic\<close> is a Go panic with its message; \<open>ErrOther\<close> stands
  for an error produced by a collaborator and passed through unchanged.
\<close>

datatype error =
    ErrInvalidSigner
  | ErrInvalidParameter
  | ErrInvalidSecondarySPCount
  | ErrDuplicateSecondarySP
  | ErrStorageProviderNotFound
  | ErrStorageProviderNotInService
  | ErrStorageProviderExitFailed
  | ErrGVGNotExist
  | ErrGVGFamilyNotExist
  | ErrDuplicateGVG
  | ErrLimitationExceed
  | ErrInvalidDenom
  | ErrWithdrawFailed
  | ErrWithdrawAmountTooLarge
  | ErrSettleFailed
  | ErrSPCanNotExit
  | ErrInsufficientFunds
  | ErrOther string
  | Panic string

record Coin =
  Denom :: string
  Amount :: int

record StorageProvider =
  sp_Id :: u32
  sp_OperatorAddress :: address
  sp_FundingAddress :: address
  sp_Status :: Status
  sp_TotalDeposit :: int

record GlobalVirtualGroup =
  gvg_Id :: u32
  gvg_FamilyId :: u32
  gvg_PrimarySpId :: u32
  gvg_SecondarySpIds :: "u32 list"
  gvg_StoredSize :: u64
  gvg_VirtualPaymentAddress :: address
  gvg_TotalDeposit :: int

record GlobalVirtualGroupFamily =
  fam_Id :: u32
  fam_PrimarySpId :: u32
  fam_GlobalVirtualGroupIds :: "u32 list"
  fam_VirtualPaymentAddress :: address

record GVGStatisticsWithinSP =
  stat_StorageProviderId :: u32
  stat_PrimaryCount :: u32
  stat_SecondaryCount :: u32
  stat_BreakRedundancyReqmtGvgCount :: u32

text \<open>
  The module parameters the handlers read: the deposit denomination, the per-family cap on
  groups, the cap on concurrently exiting providers and the swap-in validity period.
\<close>

record Params =
  DepositDenom :: string
  MaxGlobalVirtualGroupNumPerFamily :: u32
  SpConcurrentExitNum :: u32
  SwapInValidityPeriod :: u64

text \<open>The typed events, with the fields in the order the source fills them.\<close>

datatype Event =
    EventParams Params
  | EventCreateGlobalVirtualGroup u32 u32 u32 "u32 list" u64 address int
  | EventCreateGlobalVirtualGroupFamily u32 u32 address
  | EventUpdateGlobalVirtualGroup u32 u32 u64 int "u32 list"
  | EventStorageProviderExit u32 address
  | EventCompleteStorageProviderExit u32 address address int bool
  | EventStorageProviderForcedExit u32

text \<open>
  Bank accounts: the pool of a module, addressed by the module's name, or the account of
  an address.
\<close>

datatype module = VirtualGroupModule | SpModule

text \<open>The two name constants from which virtual payment accounts are derived.\<close>

datatype PaymentAccountName = GVGVirtualPaymentAccountName | GVGFamilyName

datatype account = ModuleAccount module | AddressAccount address

record chain =
  upgraded :: "Upgrade \<Rightarrow> bool"
  blockTime :: int
  params :: Params
  sps :: "StorageProvider list"
  gvgs :: "u32 \<rightharpoonup> GlobalVirtualGroup"
  families :: "u32 \<rightharpoonup> GlobalVirtualGroupFamily"
  gvgStatistics :: "u32 \<rightharpoonup> GVGStatisticsWithinSP"
  gvgSequence :: u32
  familySequence :: u32
  balances :: "account \<Rightarrow> string \<Rightarrow> int"
  events :: "Event list"

type_synonym 'a result = "(error + 'a) \<times> chain"

text \<open>The request messages.\<close>

record MsgUpdateParams =
  up_Authority :: string
  up_Params :: Params

record MsgCreateGlobalVirtualGroup =
  cr_StorageProvider :: string
  cr_FamilyId :: u32
  cr_SecondarySpIds :: "u32 list"
  cr_Deposit :: Coin

record MsgDeposit =
  dp_StorageProvider :: string
  dp_GlobalVirtualGroupId :: u32
  dp_Deposit :: Coin

record MsgWithdraw =
  wd_StorageProvider :: string
  wd_Withdraw :: Coin
  wd_GlobalVirtualGroupId :: u32

record MsgSettle =
  st_StorageProvider :: string
  st_GlobalVirtualGroupFamilyId :: u32
  st_GlobalVirtualGroupIds :: "u32 list"

record MsgStorageProviderExit =
  ex_StorageProvider :: string


record MsgStorageProviderForcedExit =
  fe_Authority :: string
  fe_StorageProvider :: string

text \<open>
  The keeper: the configured authority and the collaborators whose code lies outside the
  message server. Each is a parameter of the model, so every theorem holds for whatever
  these routines compute.
\<close>

record Keeper =
  authority :: string
  AccAddressFromHex :: "string \<Rightarrow> address option"
  NoSpecifiedFamilyId :: u32
  GovernanceAddress :: address
  ValidateParams :: "Params \<Rightarrow> error option"
  ValidateDenom :: "string \<Rightarrow> bool"
  GetExpectSecondarySPNumForECObject :: "chain \<Rightarrow> int \<Rightarrow> u32"
  DeriveVirtualPaymentAccount :: "PaymentAccountName \<Rightarrow> u32 \<Rightarrow> address"
  GetAvailableStakingTokens :: "chain \<Rightarrow> GlobalVirtualGroup \<Rightarrow> int"
  SettleAndDistributeGVGFamily ::
    "chain \<Rightarrow> StorageProvider option \<Rightarrow> GlobalVirtualGroupFamily \<Rightarrow> unit result"
  SettleAndDistributeGVG :: "chain \<Rightarrow> GlobalVirtualGroup \<Rightarrow> unit result"
  StorageProviderExitable :: "chain \<Rightarrow> u32 \<Rightarrow> error option"
  DepositDenomForSP :: "chain \<Rightarrow> string"
  spKeeper_Exit :: "chain \<Rightarrow> StorageProvider \<Rightarrow> unit result"

section \<open>Context, parameters and events\<close>

definition IsUpgraded :: "chain \<Rightarrow> Upgrade \<Rightarrow> bool" where
  "IsUpgraded ctx u = upgraded ctx u"

definition GetAuthority :: "Keeper \<Rightarrow> string" where
  "GetAuthority k = authority k"

text \<open>
  Modelled from the spec: the keeper's parameter store (absent from the source file) is
  pure data access. \<^verbatim>\<open>SetParams\<close> validates the parameters, with a validation that
  is a parameter of the model, and stores them; \<^verbatim>\<open>GetParams\<close> reads them back, and the
  named accessors read single parameters.
\<close>

definition GetParams :: "chain \<Rightarrow> Params" where
  "GetParams ctx = params ctx"

definition SetParams :: "Keeper \<Rightarrow> chain \<Rightarrow> Params \<Rightarrow> unit result" where
  "SetParams k ctx p =
     (case ValidateParams k p of
        Some err \<Rightarrow> (Inl err, ctx)
      | None \<Rightarrow> (Inr (), ctx\<lparr>params := p\<rparr>))"

definition DepositDenomForGVG :: "chain \<Rightarrow> string" where
  "DepositDenomForGVG ctx = DepositDenom (GetParams ctx)"

definition MaxGlobalVirtualGroupNumPerFamily_of :: "chain \<Rightarrow> u32" where
  "MaxGlobalVirtualGroupNumPerFamily_of ctx = MaxGlobalVirtualGroupNumPerFamily (GetParams ctx)"

definition SpConcurrentExitNum_of :: "chain \<Rightarrow> u32" where
  "SpConcurrentExitNum_of ctx = SpConcurrentExitNum (GetParams ctx)"

text \<open>
  \<^verbatim>\<open>EmitTypedEvents\<close> appends the event to the context's event list. Its error (a
  failure to marshal the event) does not arise for the message server's events; the
  handlers keep the branch that returns it.
\<close>

definition EmitTypedEvents :: "chain \<Rightarrow> Event \<Rightarrow> unit result" where
  "EmitTypedEvents ctx ev = (Inr (), ctx\<lparr>events := events ctx @ [ev]\<rparr>)"

text \<open>\<^verbatim>\<open>sdk.MustAccAddressFromHex\<close> panics on a string that is not an address.\<close>

definition MustAccAddressFromHex :: "Keeper \<Rightarrow> string \<Rightarrow> error + address" where
  "MustAccAddressFromHex k str =
     (case AccAddressFromHex k str of
        None \<Rightarrow> Inl (Panic ''invalid address'')
      | Some addr \<Rightarrow> Inr addr)"

section \<open>Collaborators with a fixed contract\<close>

text \<open>
  Modelled from the spec: the SP registry (the sp module's keeper, absent from the source
  file) offers lookup by operator address, by funding address and by id, the list of all
  providers, and the write of a provider's record. The registry is the list of provider
  records; a write replaces the record of the same id, or adds the record when the id is
  new.
\<close>

definition GetStorageProviderByOperatorAddr :: "chain \<Rightarrow> address \<Rightarrow> StorageProvider option" where
  "GetStorageProviderByOperatorAddr ctx addr =
     find (\<lambda>sp. sp_OperatorAddress sp = addr) (sps ctx)"

definition GetStorageProviderByFundingAddr :: "chain \<Rightarrow> address \<Rightarrow> StorageProvider option" where
  "GetStorageProviderByFundingAddr ctx addr =
     find (\<lambda>sp. sp_FundingAddress sp = addr) (sps ctx)"

definition GetStorageProvider :: "chain \<Rightarrow> u32 \<Rightarrow> StorageProvider option" where
  "GetStorageProvider ctx spId = find (\<lambda>sp. sp_Id sp = spId) (sps ctx)"

definition GetAllStorageProviders :: "chain \<Rightarrow> StorageProvider list" where
  "GetAllStorageProviders ctx = sps ctx"

definition SetStorageProvider :: "chain \<Rightarrow> StorageProvider \<Rightarrow> chain" where
  "SetStorageProvider ctx sp =
     (if find (\<lambda>x. sp_Id x = sp_Id sp) (sps ctx) = None
      then ctx\<lparr>sps := sps ctx @ [sp]\<rparr>
      else ctx\<lparr>sps := map (\<lambda>x. if sp_Id x = sp_Id sp then sp else x) (sps ctx)\<rparr>)"

definition IsInService :: "StorageProvider \<Rightarrow> bool" where
  "IsInService sp = (sp_Status sp = STATUS_IN_SERVICE)"

definition IsInMaintenance :: "StorageProvider \<Rightarrow> bool" where
  "IsInMaintenance sp = (sp_Status sp = STATUS_IN_MAINTENANCE)"

definition GetFundingAccAddress :: "StorageProvider \<Rightarrow> address" where
  "GetFundingAccAddress sp = sp_FundingAddress sp"

text \<open>
  The lookup that \<^verbatim>\<open>Deposit\<close>, \<^verbatim>\<open>Withdraw\<close> and \<^verbatim>\<open>Settle\<close> share: by operator
  address first, then by funding address.
\<close>

definition GetStorageProviderByOperatorOrFundingAddr ::
    "chain \<Rightarrow> address \<Rightarrow> StorageProvider option" where
  "GetStorageProviderByOperatorOrFundingAddr ctx addr =
     (case GetStorageProviderByOperatorAddr ctx addr of
        Some sp \<Rightarrow> Some sp
      | None \<Rightarrow> GetStorageProviderByFundingAddr ctx addr)"

text \<open>
  Modelled from the spec: the group store (the keeper's store accessors, absent from the
  source file) is pure data access with id generation: groups, families and statistics
  are looked up and written by id, and a new id is the next value of a sequence.
\<close>

definition GetGVG :: "chain \<Rightarrow> u32 \<Rightarrow> GlobalVirtualGroup option" where
  "GetGVG ctx gvgID = gvgs ctx gvgID"

definition SetGVG :: "chain \<Rightarrow> GlobalVirtualGroup \<Rightarrow> chain" where
  "SetGVG ctx gvg = ctx\<lparr>gvgs := (gvgs ctx)(gvg_Id gvg \<mapsto> gvg)\<rparr>"

definition GetGVGFamily :: "chain \<Rightarrow> u32 \<Rightarrow> GlobalVirtualGroupFamily option" where
  "GetGVGFamily ctx familyID = families ctx familyID"

definition SetGVGFamily :: "chain \<Rightarrow> GlobalVirtualGroupFamily \<Rightarrow> chain" where
  "SetGVGFamily ctx family = ctx\<lparr>families := (families ctx)(fam_Id family \<mapsto> family)\<rparr>"

definition GenNextGVGID :: "chain \<Rightarrow> u32 \<times> chain" where
  "GenNextGVGID ctx = (gvgSequence ctx + 1, ctx\<lparr>gvgSequence := gvgSequence ctx + 1\<rparr>)"

definition GenNextGVGFamilyID :: "chain \<Rightarrow> u32 \<times> chain" where
  "GenNextGVGFamilyID ctx =
     (familySequence ctx + 1, ctx\<lparr>familySequence := familySequence ctx + 1\<rparr>)"

definition GetGVGStatisticsWithinSP :: "chain \<Rightarrow> u32 \<Rightarrow> GVGStatisticsWithinSP option" where
  "GetGVGStatisticsWithinSP ctx spID = gvgStatistics ctx spID"

text \<open>
  Modelled from the spec: the statistics of an SP are created on first reference, with
  all counters zero.
\<close>

definition GetOrCreateGVGStatisticsWithinSP :: "chain \<Rightarrow> u32 \<Rightarrow> GVGStatisticsWithinSP" where
  "GetOrCreateGVGStatisticsWithinSP ctx spID =
     (case gvgStatistics ctx spID of
        Some stat \<Rightarrow> stat
      | None \<Rightarrow>
          \<lparr>stat_StorageProviderId = spID, stat_PrimaryCount = 0, stat_SecondaryCount = 0,
           stat_BreakRedundancyReqmtGvgCount = 0\<rparr>)"

fun BatchSetGVGStatisticsWithinSP :: "chain \<Rightarrow> GVGStatisticsWithinSP list \<Rightarrow> chain" where
  "BatchSetGVGStatisticsWithinSP ctx [] = ctx"
| "BatchSetGVGStatisticsWithinSP ctx (stat # rest) =
     BatchSetGVGStatisticsWithinSP
       (ctx\<lparr>gvgStatistics := (gvgStatistics ctx)(stat_StorageProviderId stat \<mapsto> stat)\<rparr>) rest"

text \<open>
  Modelled from the spec: \<^verbatim>\<open>GetOrCreateEmptyGVGFamily\<close> (in the keeper, absent from the
  source file). For the sentinel family id it allocates a new family id and an empty
  family owned by the primary SP; otherwise it loads the existing family and fails when
  there is none. That the loaded family belongs to the primary SP is left to the caller.
  The cap on the groups of a family is not checked here: the handler
  \<^verbatim>\<open>CreateGlobalVirtualGroup\<close> carries that check itself, after the duplicate guard.
\<close>

definition GetOrCreateEmptyGVGFamily ::
    "Keeper \<Rightarrow> chain \<Rightarrow> u32 \<Rightarrow> u32 \<Rightarrow> GlobalVirtualGroupFamily result" where
  "GetOrCreateEmptyGVGFamily k ctx familyID primarySPID =
     (if familyID = NoSpecifiedFamilyId k
      then
        (case GenNextGVGFamilyID ctx of (newId, ctx1) \<Rightarrow>
           (Inr \<lparr>fam_Id = newId, fam_PrimarySpId = primarySPID,
                 fam_GlobalVirtualGroupIds = [],
                 fam_VirtualPaymentAddress = DeriveVirtualPaymentAccount k GVGFamilyName newId\<rparr>,
            ctx1))
      else
        (case families ctx familyID of
           None \<Rightarrow> (Inl ErrGVGFamilyNotExist, ctx)
         | Some family \<Rightarrow> (Inr family, ctx)))"

definition AppendGVG :: "GlobalVirtualGroupFamily \<Rightarrow> u32 \<Rightarrow> GlobalVirtualGroupFamily" where
  "AppendGVG family gvgID =
     family\<lparr>fam_GlobalVirtualGroupIds := fam_GlobalVirtualGroupIds family @ [gvgID]\<rparr>"

text \<open>
  Coins and the bank. \<^verbatim>\<open>sdk.NewCoin\<close> panics on a negative amount and on an invalid
  denomination; \<^verbatim>\<open>math.Int.Add\<close> panics when the sum leaves the 256-bit range. A
  transfer fails when the sender's balance is too small and otherwise moves the amount.
\<close>

definition NewCoin :: "Keeper \<Rightarrow> string \<Rightarrow> int \<Rightarrow> error + Coin" where
  "NewCoin k denom amount =
     (if \<not> ValidateDenom k denom then Inl (Panic ''invalid denom'')
      else if amount < 0 then Inl (Panic ''negative coin amount'')
      else Inr \<lparr>Denom = denom, Amount = amount\<rparr>)"

definition Int_Add :: "int \<Rightarrow> int \<Rightarrow> error + int" where
  "Int_Add a b = (if \<bar>a + b\<bar> < 2 ^ 256 then Inr (a + b) else Inl (Panic ''Int overflow''))"

definition move_coins ::
    "(account \<Rightarrow> string \<Rightarrow> int) \<Rightarrow> account \<Rightarrow> account \<Rightarrow> Coin \<Rightarrow> (account \<Rightarrow> string \<Rightarrow> int)" where
  "move_coins b sender recipient coin =
     (let b1 = b(sender := (b sender)(Denom coin := b sender (Denom coin) - Amount coin))
      in b1(recipient := (b1 recipient)(Denom coin := b1 recipient (Denom coin) + Amount coin)))"

definition SendCoins :: "chain \<Rightarrow> account \<Rightarrow> account \<Rightarrow> Coin \<Rightarrow> unit result" where
  "SendCoins ctx sender recipient coin =
     (if balances ctx sender (Denom coin) < Amount coin then (Inl ErrInsufficientFunds, ctx)
      else (Inr (), ctx\<lparr>balances := move_coins (balances ctx) sender recipient coin\<rparr>))"

definition SendCoinsFromAccountToModule ::
    "chain \<Rightarrow> address \<Rightarrow> module \<Rightarrow> Coin \<Rightarrow> unit result" where
  "SendCoinsFromAccountToModule ctx senderAddr recipientModule coin =
     SendCoins ctx (AddressAccount senderAddr) (ModuleAccount recipientModule) coin"

definition SendCoinsFromModuleToAccount ::
    "chain \<Rightarrow> module \<Rightarrow> address \<Rightarrow> Coin \<Rightarrow> unit result" where
  "SendCoinsFromModuleToAccount ctx senderModule recipientAddr coin =
     SendCoins ctx (ModuleAccount senderModule) (AddressAccount recipientAddr) coin"

section \<open>UpdateParams\<close>

definition UpdateParams :: "Keeper \<Rightarrow> chain \<Rightarrow> MsgUpdateParams \<Rightarrow> unit result" where
  "UpdateParams k ctx req =
     (if GetAuthority k \<noteq> up_Authority req then (Inl ErrInvalidSigner, ctx)
      else
        let originParams = GetParams ctx in
        if DepositDenom (up_Params req) \<noteq> DepositDenom originParams
        then (Inl ErrInvalidParameter, ctx)
        else
          (case SetParams k ctx (up_Params req) of
             (Inl err, ctx1) \<Rightarrow> (Inl err, ctx1)
           | (Inr _, ctx1) \<Rightarrow>
               (if IsUpgraded ctx1 Nagqu
                then (Inr (), snd (EmitTypedEvents ctx1 (EventParams (GetParams ctx1))))
                else (Inr (), ctx1))))"

section \<open>CreateGlobalVirtualGroup\<close>

text \<open>The duplicate check on the requested secondary SP ids (under Pampas).\<close>

fun check_duplicate_secondary_sp :: "u32 set \<Rightarrow> u32 list \<Rightarrow> error option" where
  "check_duplicate_secondary_sp spIdSet [] = None"
| "check_duplicate_secondary_sp spIdSet (spId # rest) =
     (if spId \<in> spIdSet then Some ErrDuplicateSecondarySP
      else check_duplicate_secondary_sp (insert spId spIdSet) rest)"

text \<open>
  The loop over the requested secondary SP ids: each must exist and be in service or in
  maintenance; its id and its statistics with the secondary counter incremented are
  collected.
\<close>

fun collect_secondary_sps ::
    "chain \<Rightarrow> u32 list \<Rightarrow> u32 list \<Rightarrow> GVGStatisticsWithinSP list \<Rightarrow>
     error + (u32 list \<times> GVGStatisticsWithinSP list)" where
  "collect_secondary_sps ctx [] secondarySpIds stats = Inr (secondarySpIds, stats)"
| "collect_secondary_sps ctx (spId # rest) secondarySpIds stats =
     (case GetStorageProvider ctx spId of
        None \<Rightarrow> Inl ErrStorageProviderNotFound
      | Some ssp \<Rightarrow>
          if \<not> IsInService ssp \<and> \<not> IsInMaintenance ssp then Inl ErrStorageProviderNotInService
          else
            let gvgStatisticsWithinSP = GetOrCreateGVGStatisticsWithinSP ctx (sp_Id ssp) in
            collect_secondary_sps ctx rest (secondarySpIds @ [sp_Id ssp])
              (stats @ [gvgStatisticsWithinSP
                  \<lparr>stat_SecondaryCount := stat_SecondaryCount gvgStatisticsWithinSP + 1\<rparr>]))"

text \<open>
  The inner loop of the duplicate-GVG check: position \<open>i\<close> of an existing group's
  secondary SP ids against position \<open>i\<close> of the requested ones. \<open>None\<close> is the loop
  ending or breaking; reading the requested ids past their end is Go's index panic.
\<close>

fun compare_secondary_sps :: "nat \<Rightarrow> u32 list \<Rightarrow> u32 list \<Rightarrow> error option" where
  "compare_secondary_sps i [] secondarySpIds = None"
| "compare_secondary_sps i (secondarySPId # rest) secondarySpIds =
     (if length secondarySpIds \<le> i then Some (Panic ''index out of range'')
      else if secondarySPId \<noteq> secondarySpIds ! i then None
      else if int i = int (length secondarySpIds) - 1 then Some ErrDuplicateGVG
      else compare_secondary_sps (i + 1) rest secondarySpIds)"

fun check_duplicate_gvg :: "chain \<Rightarrow> u32 list \<Rightarrow> u32 list \<Rightarrow> error option" where
  "check_duplicate_gvg ctx [] secondarySpIds = None"
| "check_duplicate_gvg ctx (gvgID # rest) secondarySpIds =
     (case GetGVG ctx gvgID of
        None \<Rightarrow> Some ErrGVGNotExist
      | Some gvg \<Rightarrow>
          (case compare_secondary_sps 0 (gvg_SecondarySpIds gvg) secondarySpIds of
             Some err \<Rightarrow> Some err
           | None \<Rightarrow> check_duplicate_gvg ctx rest secondarySpIds))"

text \<open>The validation under Pampas: the expected count, then pairwise distinct ids.\<close>

definition check_secondary_sp_ids :: "Keeper \<Rightarrow> chain \<Rightarrow> u32 list \<Rightarrow> error option" where
  "check_secondary_sp_ids k ctx ids =
     (if IsUpgraded ctx Pampas
      then
        let expectSecondarySPNum = uint (GetExpectSecondarySPNumForECObject k ctx (blockTime ctx)) in
        if int (length ids) \<noteq> expectSecondarySPNum then Some ErrInvalidSecondarySPCount
        else check_duplicate_secondary_sp {} ids
      else None)"

text \<open>
  The second half of the handler, from the deposit on: escrow the deposit, create the
  group, link it into the family, persist and emit.
\<close>

definition store_new_gvg ::
    "Keeper \<Rightarrow> chain \<Rightarrow> MsgCreateGlobalVirtualGroup \<Rightarrow> StorageProvider \<Rightarrow> u32 list \<Rightarrow>
     GVGStatisticsWithinSP list \<Rightarrow> GlobalVirtualGroupFamily \<Rightarrow> unit result" where
  "store_new_gvg k ctx req sp secondarySpIds gvgStatisticsWithinSPs gvgFamily =
     (case NewCoin k (DepositDenomForGVG ctx) (Amount (cr_Deposit req)) of
        Inl err \<Rightarrow> (Inl err, ctx)
      | Inr coins \<Rightarrow>
     (case MustAccAddressFromHex k (sp_FundingAddress sp) of
        Inl err \<Rightarrow> (Inl err, ctx)
      | Inr fundingAddr \<Rightarrow>
     (case SendCoinsFromAccountToModule ctx fundingAddr VirtualGroupModule coins of
        (Inl err, ctx1) \<Rightarrow> (Inl err, ctx1)
      | (Inr _, ctx1) \<Rightarrow>
     (case GenNextGVGID ctx1 of (gvgID, ctx2) \<Rightarrow>
        let gvg = \<lparr>gvg_Id = gvgID, gvg_FamilyId = fam_Id gvgFamily, gvg_PrimarySpId = sp_Id sp,
                   gvg_SecondarySpIds = secondarySpIds, gvg_StoredSize = 0,
                   gvg_VirtualPaymentAddress = DeriveVirtualPaymentAccount k GVGVirtualPaymentAccountName gvgID,
                   gvg_TotalDeposit = Amount (cr_Deposit req)\<rparr>;
            gvgFamily1 = AppendGVG gvgFamily (gvg_Id gvg);
            ctx3 = SetGVG ctx2 gvg;
            ctx4 = SetGVGFamily ctx3 gvgFamily1;
            ctx5 = BatchSetGVGStatisticsWithinSP ctx4 gvgStatisticsWithinSPs
        in
        (case EmitTypedEvents ctx5
                (EventCreateGlobalVirtualGroup (gvg_Id gvg) (gvg_FamilyId gvg) (gvg_PrimarySpId gvg)
                   (gvg_SecondarySpIds gvg) (gvg_StoredSize gvg) (gvg_VirtualPaymentAddress gvg)
                   (gvg_TotalDeposit gvg)) of
           (Inl err, ctx6) \<Rightarrow> (Inl err, ctx6)
         | (Inr _, ctx6) \<Rightarrow>
             if cr_FamilyId req = NoSpecifiedFamilyId k
             then
               (case EmitTypedEvents ctx6
                       (EventCreateGlobalVirtualGroupFamily (fam_Id gvgFamily1)
                          (fam_PrimarySpId gvgFamily1) (fam_VirtualPaymentAddress gvgFamily1)) of
                  (Inl err, ctx7) \<Rightarrow> (Inl err, ctx7)
                | (Inr _, ctx7) \<Rightarrow> (Inr (), ctx7))
             else (Inr (), ctx6))))))"

definition CreateGlobalVirtualGroup ::
    "Keeper \<Rightarrow> chain \<Rightarrow> MsgCreateGlobalVirtualGroup \<Rightarrow> unit result" where
  "CreateGlobalVirtualGroup k ctx req =
     (case check_secondary_sp_ids k ctx (cr_SecondarySpIds req) of
        Some err \<Rightarrow> (Inl err, ctx)
      | None \<Rightarrow>
     (case MustAccAddressFromHex k (cr_StorageProvider req) of
        Inl err \<Rightarrow> (Inl err, ctx)
      | Inr spOperatorAddr \<Rightarrow>
     (case GetStorageProviderByOperatorAddr ctx spOperatorAddr of
        None \<Rightarrow> (Inl ErrStorageProviderNotFound, ctx)
      | Some sp \<Rightarrow>
     if \<not> IsInService sp \<and> \<not> IsInMaintenance sp then (Inl ErrStorageProviderNotInService, ctx)
     else
       let stat = GetOrCreateGVGStatisticsWithinSP ctx (sp_Id sp);
           stat1 = stat\<lparr>stat_PrimaryCount := stat_PrimaryCount stat + 1\<rparr>
       in
       (case collect_secondary_sps ctx (cr_SecondarySpIds req) [] [stat1] of
          Inl err \<Rightarrow> (Inl err, ctx)
        | Inr (secondarySpIds, gvgStatisticsWithinSPs) \<Rightarrow>
       (case GetOrCreateEmptyGVGFamily k ctx (cr_FamilyId req) (sp_Id sp) of
          (Inl err, ctx1) \<Rightarrow> (Inl err, ctx1)
        | (Inr gvgFamily, ctx1) \<Rightarrow>
       (case (if IsUpgraded ctx1 Manchurian
              then check_duplicate_gvg ctx1 (fam_GlobalVirtualGroupIds gvgFamily) secondarySpIds
              else None) of
          Some err \<Rightarrow> (Inl err, ctx1)
        | None \<Rightarrow>
       if MaxGlobalVirtualGroupNumPerFamily_of ctx1
            < word_of_nat (length (fam_GlobalVirtualGroupIds gvgFamily))
       then (Inl ErrLimitationExceed, ctx1)
       else store_new_gvg k ctx1 req sp secondarySpIds gvgStatisticsWithinSPs gvgFamily))))))"

section \<open>Deposit and Withdraw\<close>

definition Deposit :: "Keeper \<Rightarrow> chain \<Rightarrow> MsgDeposit \<Rightarrow> unit result" where
  "Deposit k ctx req =
     (case MustAccAddressFromHex k (dp_StorageProvider req) of
        Inl err \<Rightarrow> (Inl err, ctx)
      | Inr addr \<Rightarrow>
     (case GetStorageProviderByOperatorOrFundingAddr ctx addr of
        None \<Rightarrow> (Inl ErrStorageProviderNotFound, ctx)
      | Some sp \<Rightarrow>
     (case GetGVG ctx (dp_GlobalVirtualGroupId req) of
        None \<Rightarrow> (Inl ErrGVGNotExist, ctx)
      | Some gvg \<Rightarrow>
     let depositDenom = DepositDenomForGVG ctx in
     if depositDenom \<noteq> Denom (dp_Deposit req) then (Inl ErrInvalidDenom, ctx)
     else
       (case NewCoin k depositDenom (Amount (dp_Deposit req)) of
          Inl err \<Rightarrow> (Inl err, ctx)
        | Inr coins \<Rightarrow>
       (case SendCoinsFromAccountToModule ctx (GetFundingAccAddress sp) VirtualGroupModule coins of
          (Inl err, ctx1) \<Rightarrow> (Inl err, ctx1)
        | (Inr _, ctx1) \<Rightarrow>
       (case Int_Add (gvg_TotalDeposit gvg) (Amount (dp_Deposit req)) of
          Inl err \<Rightarrow> (Inl err, ctx1)
        | Inr totalDeposit \<Rightarrow>
            let gvg1 = gvg\<lparr>gvg_TotalDeposit := totalDeposit\<rparr>;
                ctx2 = SetGVG ctx1 gvg1
            in
            (case EmitTypedEvents ctx2
                    (EventUpdateGlobalVirtualGroup (gvg_Id gvg1) (gvg_PrimarySpId gvg1)
                       (gvg_StoredSize gvg1) (gvg_TotalDeposit gvg1) (gvg_SecondarySpIds gvg1)) of
               (Inl err, ctx3) \<Rightarrow> (Inl err, ctx3)
             | (Inr _, ctx3) \<Rightarrow> (Inr (), ctx3))))))))"

definition Withdraw :: "Keeper \<Rightarrow> chain \<Rightarrow> MsgWithdraw \<Rightarrow> unit result" where
  "Withdraw k ctx req =
     (case MustAccAddressFromHex k (wd_StorageProvider req) of
        Inl err \<Rightarrow> (Inl err, ctx)
      | Inr addr \<Rightarrow>
     (case GetStorageProviderByOperatorOrFundingAddr ctx addr of
        None \<Rightarrow> (Inl ErrStorageProviderNotFound, ctx)
      | Some sp \<Rightarrow>
     (case GetGVG ctx (wd_GlobalVirtualGroupId req) of
        None \<Rightarrow> (Inl ErrGVGNotExist, ctx)
      | Some gvg \<Rightarrow>
     if gvg_PrimarySpId gvg \<noteq> sp_Id sp then (Inl ErrWithdrawFailed, ctx)
     else
       let depositDenom = DepositDenomForGVG ctx in
       if Denom (wd_Withdraw req) \<noteq> depositDenom then (Inl ErrInvalidDenom, ctx)
       else
         let availableTokens = GetAvailableStakingTokens k ctx gvg in
         if availableTokens < 0
         then (Inl (Panic ''the available tokens is negative when withdraw''), ctx)
         else
           (case (if Amount (wd_Withdraw req) = 0 then Inr availableTokens
                  else if availableTokens < Amount (wd_Withdraw req)
                  then Inl ErrWithdrawAmountTooLarge
                  else Inr (Amount (wd_Withdraw req))) of
              Inl err \<Rightarrow> (Inl err, ctx)
            | Inr withdrawTokens \<Rightarrow>
           (case NewCoin k depositDenom withdrawTokens of
              Inl err \<Rightarrow> (Inl err, ctx)
            | Inr coins \<Rightarrow>
           (case SendCoinsFromModuleToAccount ctx VirtualGroupModule (GetFundingAccAddress sp)
                   coins of
              (Inl err, ctx1) \<Rightarrow> (Inl err, ctx1)
            | (Inr _, ctx1) \<Rightarrow>
           (case EmitTypedEvents ctx1
                   (EventUpdateGlobalVirtualGroup (wd_GlobalVirtualGroupId req) 0
                      (gvg_StoredSize gvg) (gvg_TotalDeposit gvg) []) of
              (Inl err, ctx2) \<Rightarrow> (Inl err, ctx2)
            | (Inr _, ctx2) \<Rightarrow> (Inr (), ctx2))))))))"

section \<open>Settle\<close>



text \<open>
  The permission loop before Pampas: is the caller's SP id among the group's secondary SP
  ids? The caller's SP is a pointer, \<open>None\<close> when nil.
\<close>

fun permitted_loop :: "StorageProvider option \<Rightarrow> u32 list \<Rightarrow> error + bool" where
  "permitted_loop sp [] = Inr False"
| "permitted_loop sp (spId # rest) =
     (case sp of
        None \<Rightarrow> Inl (Panic ''nil pointer dereference'')
      | Some p \<Rightarrow> if spId = sp_Id p then Inr True else permitted_loop sp rest)"

fun settle_gvgs ::
    "Keeper \<Rightarrow> bool \<Rightarrow> StorageProvider option \<Rightarrow> chain \<Rightarrow> u32 list \<Rightarrow> unit result" where
  "settle_gvgs k pampasUpgraded sp ctx [] = (Inr (), ctx)"
| "settle_gvgs k pampasUpgraded sp ctx (gvgID # rest) =
     (case GetGVG ctx gvgID of
        None \<Rightarrow> (Inl ErrGVGNotExist, ctx)
      | Some gvg \<Rightarrow>
     (case (if \<not> pampasUpgraded then permitted_loop sp (gvg_SecondarySpIds gvg) else Inr True) of
        Inl err \<Rightarrow> (Inl err, ctx)
      | Inr permitted \<Rightarrow>
     if \<not> permitted then (Inl ErrSettleFailed, ctx)
     else
       (case SettleAndDistributeGVG k ctx gvg of
          (Inl err, ctx1) \<Rightarrow> (Inl ErrSettleFailed, ctx1)
        | (Inr _, ctx1) \<Rightarrow> settle_gvgs k pampasUpgraded sp ctx1 rest)))"



section \<open>Storage provider exit\<close>

text \<open>
  The loop over all providers that counts those in either exiting status and fails as
  soon as the count reaches the cap. \<^verbatim>\<open>StorageProviderExit\<close> and
  \<^verbatim>\<open>StorageProviderForcedExit\<close> each carry a copy of it.
\<close>

fun count_exiting_sps :: "u32 \<Rightarrow> u32 \<Rightarrow> StorageProvider list \<Rightarrow> error option" where
  "count_exiting_sps maxSPExitingNum exitingSPNum [] = None"
| "count_exiting_sps maxSPExitingNum exitingSPNum (curSP # rest) =
     (if sp_Status curSP = STATUS_GRACEFUL_EXITING \<or> sp_Status curSP = STATUS_FORCED_EXITING
      then
        let exitingSPNum1 = exitingSPNum + 1 in
        if exitingSPNum1 \<ge> maxSPExitingNum then Some ErrStorageProviderExitFailed
        else count_exiting_sps maxSPExitingNum exitingSPNum1 rest
      else count_exiting_sps maxSPExitingNum exitingSPNum rest)"

text \<open>The checks of the voluntary exit that the Hulunbeier upgrade adds.\<close>

definition exit_checks_hulunbeier :: "chain \<Rightarrow> StorageProvider \<Rightarrow> error option" where
  "exit_checks_hulunbeier ctx sp =
     (case GetGVGStatisticsWithinSP ctx (sp_Id sp) of
        Some stat \<Rightarrow>
          if stat_BreakRedundancyReqmtGvgCount stat \<noteq> 0 then Some ErrSPCanNotExit
          else count_exiting_sps (SpConcurrentExitNum_of ctx) 0 (GetAllStorageProviders ctx)
      | None \<Rightarrow> count_exiting_sps (SpConcurrentExitNum_of ctx) 0 (GetAllStorageProviders ctx))"

definition StorageProviderExit ::
    "Keeper \<Rightarrow> chain \<Rightarrow> MsgStorageProviderExit \<Rightarrow> unit result" where
  "StorageProviderExit k ctx msg =
     (case MustAccAddressFromHex k (ex_StorageProvider msg) of
        Inl err \<Rightarrow> (Inl err, ctx)
      | Inr operatorAddr \<Rightarrow>
     (case GetStorageProviderByOperatorAddr ctx operatorAddr of
        None \<Rightarrow> (Inl ErrStorageProviderNotFound, ctx)
      | Some sp \<Rightarrow>
     if sp_Status sp \<noteq> STATUS_IN_SERVICE then (Inl ErrStorageProviderExitFailed, ctx)
     else
       (case (if IsUpgraded ctx Hulunbeier then exit_checks_hulunbeier ctx sp else None) of
          Some err \<Rightarrow> (Inl err, ctx)
        | None \<Rightarrow>
            let sp1 = sp\<lparr>sp_Status := STATUS_GRACEFUL_EXITING\<rparr>;
                ctx1 = SetStorageProvider ctx sp1
            in
            (case EmitTypedEvents ctx1
                    (EventStorageProviderExit (sp_Id sp1) (sp_OperatorAddress sp1)) of
               (Inl err, ctx2) \<Rightarrow> (Inl err, ctx2)
             | (Inr _, ctx2) \<Rightarrow> (Inr (), ctx2)))))"

definition StorageProviderForcedExit ::
    "Keeper \<Rightarrow> chain \<Rightarrow> MsgStorageProviderForcedExit \<Rightarrow> unit result" where
  "StorageProviderForcedExit k ctx msg =
     (if GetAuthority k \<noteq> fe_Authority msg then (Inl ErrInvalidSigner, ctx)
      else
     (case MustAccAddressFromHex k (fe_StorageProvider msg) of
        Inl err \<Rightarrow> (Inl err, ctx)
      | Inr spAddr \<Rightarrow>
     (case GetStorageProviderByOperatorAddr ctx spAddr of
        None \<Rightarrow> (Inl ErrStorageProviderNotFound, ctx)
      | Some sp \<Rightarrow>
     (case count_exiting_sps (SpConcurrentExitNum_of ctx) 0 (GetAllStorageProviders ctx) of
        Some err \<Rightarrow> (Inl err, ctx)
      | None \<Rightarrow>
          let sp1 = sp\<lparr>sp_Status := STATUS_FORCED_EXITING\<rparr>;
              ctx1 = SetStorageProvider ctx sp1
          in
          (case EmitTypedEvents ctx1 (EventStorageProviderForcedExit (sp_Id sp1)) of
             (Inl err, ctx2) \<Rightarrow> (Inl err, ctx2)
           | (Inr _, ctx2) \<Rightarrow> (Inr (), ctx2))))))"



section \<open>Notions of the specification\<close>

text \<open>
  A provider in either exiting status, the number of such providers in the registry, and
  the redundancy-break counter of a provider (zero while the provider has no statistics
  record).
\<close>

definition is_exiting :: "StorageProvider \<Rightarrow> bool" where
  "is_exiting sp =
     (sp_Status sp = STATUS_GRACEFUL_EXITING \<or> sp_Status sp = STATUS_FORCED_EXITING)"

definition num_exiting_sps :: "chain \<Rightarrow> nat" where
  "num_exiting_sps ctx = length (filter is_exiting (GetAllStorageProviders ctx))"

definition break_redundancy_count :: "chain \<Rightarrow> u32 \<Rightarrow> u32" where
  "break_redundancy_count ctx spID =
     (case GetGVGStatisticsWithinSP ctx spID of
        None \<Rightarrow> 0
      | Some stat \<Rightarrow> stat_BreakRedundancyReqmtGvgCount stat)"

section \<open>A small chain for concrete runs\<close>

text \<open>
  A keeper whose collaborators are as simple as their contracts allow, and a chain with
  five providers, one family and one group: provider 1 is the primary of group 1,
  providers 2, 3 and 4 are its secondaries, provider 5 has no part in it. The group
  stores 40 bytes at a staking price of 1, so 40 of its deposit of 100 are required stake.
\<close>

definition example_keeper :: Keeper where
  "example_keeper =
     \<lparr>authority = ''gov'',
      AccAddressFromHex = Some,
      NoSpecifiedFamilyId = 0,
      GovernanceAddress = ''governance'',
      ValidateParams = (\<lambda>p. None),
      ValidateDenom = (\<lambda>d. d \<noteq> []),
      GetExpectSecondarySPNumForECObject = (\<lambda>ctx t. 2),
      DeriveVirtualPaymentAccount = (\<lambda>n i. ''vpa''),
      GetAvailableStakingTokens = (\<lambda>ctx gvg. gvg_TotalDeposit gvg - uint (gvg_StoredSize gvg)),
      SettleAndDistributeGVGFamily = (\<lambda>ctx sp family. (Inr (), ctx)),
      SettleAndDistributeGVG = (\<lambda>ctx gvg. (Inr (), ctx)),
      StorageProviderExitable = (\<lambda>ctx spId. None),
      DepositDenomForSP = (\<lambda>ctx. ''BNB''),
      spKeeper_Exit = (\<lambda>ctx sp. (Inr (), ctx\<lparr>sps := filter (\<lambda>x. sp_Id x \<noteq> sp_Id sp) (sps ctx)\<rparr>))\<rparr>"

definition example_sp :: "u32 \<Rightarrow> address \<Rightarrow> address \<Rightarrow> Status \<Rightarrow> StorageProvider" where
  "example_sp i operator funding status =
     \<lparr>sp_Id = i, sp_OperatorAddress = operator, sp_FundingAddress = funding,
      sp_Status = status, sp_TotalDeposit = 1000\<rparr>"

definition example_gvg :: GlobalVirtualGroup where
  "example_gvg =
     \<lparr>gvg_Id = 1, gvg_FamilyId = 1, gvg_PrimarySpId = 1, gvg_SecondarySpIds = [2, 3, 4],
      gvg_StoredSize = 40, gvg_VirtualPaymentAddress = ''vpa'', gvg_TotalDeposit = 100\<rparr>"

definition example_chain :: chain where
  "example_chain =
     \<lparr>upgraded = (\<lambda>u. True),
      blockTime = 0,
      params = \<lparr>DepositDenom = ''BNB'', MaxGlobalVirtualGroupNumPerFamily = 1,
                SpConcurrentExitNum = 1, SwapInValidityPeriod = 0\<rparr>,
      sps = [example_sp 1 ''op1'' ''fund1'' STATUS_IN_SERVICE,
             example_sp 2 ''op2'' ''fund2'' STATUS_IN_SERVICE,
             example_sp 3 ''op3'' ''fund3'' STATUS_IN_SERVICE,
             example_sp 4 ''op4'' ''fund4'' STATUS_IN_SERVICE,
             example_sp 5 ''op5'' ''fund5'' STATUS_IN_SERVICE],
      gvgs = [1 \<mapsto> example_gvg],
      families = [1 \<mapsto> \<lparr>fam_Id = 1, fam_PrimarySpId = 1, fam_GlobalVirtualGroupIds = [1],
                          fam_VirtualPaymentAddress = ''vpa''\<rparr>],
      gvgStatistics = Map.empty,
      gvgSequence = 1,
      familySequence = 1,
      balances = (\<lambda>a d. if d = ''BNB'' then 1000 else 0),
      events = []\<rparr>"

definition example_update :: MsgUpdateParams where
  "example_update =
     \<lparr>up_Authority = ''gov'',
      up_Params = \<lparr>DepositDenom = ''BNB'', MaxGlobalVirtualGroupNumPerFamily = 7,
                   SpConcurrentExitNum = 2, SwapInValidityPeriod = 0\<rparr>\<rparr>"

definition example_deposit :: MsgDeposit where
  "example_deposit =
     \<lparr>dp_StorageProvider = ''op1'', dp_GlobalVirtualGroupId = 1,
      dp_Deposit = \<lparr>Denom = ''BNB'', Amount = 50\<rparr>\<rparr>"

definition example_withdraw :: MsgWithdraw where
  "example_withdraw =
     \<lparr>wd_StorageProvider = ''op1'', wd_Withdraw = \<lparr>Denom = ''BNB'', Amount = 0\<rparr>,
      wd_GlobalVirtualGroupId = 1\<rparr>"

definition example_create :: MsgCreateGlobalVirtualGroup where
  "example_create =
     \<lparr>cr_StorageProvider = ''op1'', cr_FamilyId = 1, cr_SecondarySpIds = [3, 2],
      cr_Deposit = \<lparr>Denom = ''BNB'', Amount = 10\<rparr>\<rparr>"

definition example_settle :: MsgSettle where
  "example_settle =
     \<lparr>st_StorageProvider = ''op2'', st_GlobalVirtualGroupFamilyId = 0,
      st_GlobalVirtualGroupIds = [1, 1]\<rparr>"

text \<open>
  Variants of the example chain for the exit handlers: one in which provider 2 is already
  exiting and provider 1 has two groups that break the redundancy requirement, and the
  same before the Hulunbeier upgrade.
\<close>

definition example_chain_exiting :: chain where
  "example_chain_exiting =
     example_chain
       \<lparr>sps := [example_sp 1 ''op1'' ''fund1'' STATUS_IN_SERVICE,
                example_sp 2 ''op2'' ''fund2'' STATUS_GRACEFUL_EXITING,
                example_sp 3 ''op3'' ''fund3'' STATUS_IN_MAINTENANCE],
        gvgStatistics :=
          [1 \<mapsto> \<lparr>stat_StorageProviderId = 1, stat_PrimaryCount = 1, stat_SecondaryCount = 0,
                   stat_BreakRedundancyReqmtGvgCount = 2\<rparr>]\<rparr>"

definition example_chain_before_hulunbeier :: chain where
  "example_chain_before_hulunbeier =
     example_chain_exiting\<lparr>upgraded := (\<lambda>u. u \<noteq> Hulunbeier)\<rparr>"

text \<open>
  For \<^verbatim>\<open>Settle\<close>: the example chain before every upgrade, a chain with three groups,
  and a keeper whose settlement of group 2 fails.
\<close>

definition example_chain_before_pampas :: chain where
  "example_chain_before_pampas = example_chain\<lparr>upgraded := (\<lambda>u. False)\<rparr>"

definition example_chain_three_groups :: chain where
  "example_chain_three_groups =
     example_chain
       \<lparr>gvgs := [1 \<mapsto> example_gvg, 2 \<mapsto> example_gvg\<lparr>gvg_Id := 2\<rparr>,
                 3 \<mapsto> example_gvg\<lparr>gvg_Id := 3\<rparr>]\<rparr>"

definition example_keeper_failing :: Keeper where
  "example_keeper_failing =
     example_keeper
       \<lparr>SettleAndDistributeGVG :=
          (\<lambda>ctx gvg. if gvg_Id gvg = 2 then (Inl (ErrOther ''payment''), ctx)
                      else (Inr (), ctx))\<rparr>"

text \<open>The example chain before any family or group exists.\<close>

definition example_chain_fresh :: chain where
  "example_chain_fresh =
     example_chain\<lparr>gvgs := Map.empty, families := Map.empty, gvgSequence := 0,
                   familySequence := 0\<rparr>"

section \<open>Simplification sets\<close>

lemmas example_defs = example_keeper_def example_chain_def example_sp_def example_gvg_def
  example_update_def example_deposit_def example_withdraw_def example_create_def
  example_settle_def example_chain_exiting_def example_chain_before_hulunbeier_def
  example_chain_before_pampas_def example_chain_three_groups_def example_keeper_failing_def
  example_chain_fresh_def

lemmas store_defs = IsUpgraded_def GetAuthority_def GetParams_def SetParams_def
  DepositDenomForGVG_def MaxGlobalVirtualGroupNumPerFamily_of_def SpConcurrentExitNum_of_def
  EmitTypedEvents_def MustAccAddressFromHex_def GetStorageProviderByOperatorAddr_def
  GetStorageProviderByFundingAddr_def GetStorageProvider_def GetAllStorageProviders_def
  SetStorageProvider_def IsInService_def IsInMaintenance_def GetFundingAccAddress_def
  GetStorageProviderByOperatorOrFundingAddr_def GetGVG_def SetGVG_def GetGVGFamily_def
  SetGVGFamily_def GenNextGVGID_def GenNextGVGFamilyID_def GetGVGStatisticsWithinSP_def
  GetOrCreateGVGStatisticsWithinSP_def GetOrCreateEmptyGVGFamily_def AppendGVG_def NewCoin_def
  Int_Add_def move_coins_def SendCoins_def SendCoinsFromAccountToModule_def
  SendCoinsFromModuleToAccount_def is_exiting_def num_exiting_sps_def
  break_redundancy_count_def

section \<open>UpdateParams and the deposit denomination\<close>

text \<open>
  C10 (as amended). \<^verbatim>\<open>UpdateParams\<close> never changes the stored \<open>DepositDenom\<close>. A
  request whose authority is not the keeper's fails with the invalid-signer error; a
  request with the right authority whose \<open>DepositDenom\<close> differs from the stored one
  fails with the invalid-parameter error; both leave the whole state as it was. The
  stored parameters change only for a request with the right authority and the current
  \<open>DepositDenom\<close>, and then they become the requested ones.
\<close>

theorem UpdateParams_DepositDenom_fixed:
  "DepositDenom (GetParams (snd (UpdateParams k ctx req))) = DepositDenom (GetParams ctx) \<and>
   (GetAuthority k \<noteq> up_Authority req \<longrightarrow>
      UpdateParams k ctx req = (Inl ErrInvalidSigner, ctx)) \<and>
   (GetAuthority k = up_Authority req \<and>
      DepositDenom (up_Params req) \<noteq> DepositDenom (GetParams ctx) \<longrightarrow>
      UpdateParams k ctx req = (Inl ErrInvalidParameter, ctx)) \<and>
   (GetParams (snd (UpdateParams k ctx req)) \<noteq> GetParams ctx \<longrightarrow>
      GetAuthority k = up_Authority req \<and>
      DepositDenom (up_Params req) = DepositDenom (GetParams ctx) \<and>
      GetParams (snd (UpdateParams k ctx req)) = up_Params req)"
  by (auto simp: UpdateParams_def SetParams_def EmitTypedEvents_def GetParams_def Let_def
      split: option.splits)

text \<open>
  The theorem at work: the governance authority raises the family cap of the example
  chain from 1 to 7; the same request asking for another denomination, and the same
  request from another sender, are refused and change nothing.
\<close>

theorem UpdateParams_DepositDenom_fixed_witness:
  "GetAuthority example_keeper = up_Authority example_update \<and>
   DepositDenom (up_Params example_update) = DepositDenom (GetParams example_chain) \<and>
   GetParams (snd (UpdateParams example_keeper example_chain example_update))
     \<noteq> GetParams example_chain \<and>
   GetParams (snd (UpdateParams example_keeper example_chain example_update))
     = up_Params example_update \<and>
   UpdateParams example_keeper example_chain
      (example_update\<lparr>up_Params := (up_Params example_update)\<lparr>DepositDenom := ''ETH''\<rparr>\<rparr>)
     = (Inl ErrInvalidParameter, example_chain) \<and>
   UpdateParams example_keeper example_chain (example_update\<lparr>up_Authority := ''mallory''\<rparr>)
     = (Inl ErrInvalidSigner, example_chain)"
  using UpdateParams_DepositDenom_fixed [of example_keeper example_chain example_update]
    UpdateParams_DepositDenom_fixed [of example_keeper example_chain
      "example_update\<lparr>up_Params := (up_Params example_update)\<lparr>DepositDenom := ''ETH''\<rparr>\<rparr>"]
    UpdateParams_DepositDenom_fixed [of example_keeper example_chain
      "example_update\<lparr>up_Authority := ''mallory''\<rparr>"]
  by (simp add: UpdateParams_def example_defs store_defs)

text \<open>
  C10 as stated fails: a request with another denomination from a sender that is not the
  authority is refused as an invalid signer, not as an invalid parameter.
\<close>

theorem UpdateParams_wrong_authority_counterexample:
  "DepositDenom (up_Params (example_update\<lparr>up_Authority := ''mallory'',
        up_Params := (up_Params example_update)\<lparr>DepositDenom := ''ETH''\<rparr>\<rparr>))
     \<noteq> DepositDenom (GetParams example_chain) \<and>
   fst (UpdateParams example_keeper example_chain
      (example_update\<lparr>up_Authority := ''mallory'',
        up_Params := (up_Params example_update)\<lparr>DepositDenom := ''ETH''\<rparr>\<rparr>))
     \<noteq> Inl ErrInvalidParameter \<and>
   UpdateParams example_keeper example_chain
      (example_update\<lparr>up_Authority := ''mallory'',
        up_Params := (up_Params example_update)\<lparr>DepositDenom := ''ETH''\<rparr>\<rparr>)
     = (Inl ErrInvalidSigner, example_chain)"
  by (simp add: UpdateParams_def example_defs store_defs)

section \<open>Withdraw\<close>

text \<open>
  The handler once the caller is resolved to the primary SP of an existing group and the
  denomination matches: what remains is the code from the available tokens on.
\<close>

lemma Withdraw_reached:
  assumes "MustAccAddressFromHex k (wd_StorageProvider req) = Inr addr"
      and "GetStorageProviderByOperatorOrFundingAddr ctx addr = Some sp"
      and "GetGVG ctx (wd_GlobalVirtualGroupId req) = Some gvg"
      and "gvg_PrimarySpId gvg = sp_Id sp"
      and "Denom (wd_Withdraw req) = DepositDenomForGVG ctx"
  shows "Withdraw k ctx req =
     (if GetAvailableStakingTokens k ctx gvg < 0
      then (Inl (Panic ''the available tokens is negative when withdraw''), ctx)
      else
        (case (if Amount (wd_Withdraw req) = 0 then Inr (GetAvailableStakingTokens k ctx gvg)
               else if GetAvailableStakingTokens k ctx gvg < Amount (wd_Withdraw req)
               then Inl ErrWithdrawAmountTooLarge
               else Inr (Amount (wd_Withdraw req))) of
           Inl err \<Rightarrow> (Inl err, ctx)
         | Inr withdrawTokens \<Rightarrow>
        (case NewCoin k (DepositDenomForGVG ctx) withdrawTokens of
           Inl err \<Rightarrow> (Inl err, ctx)
         | Inr coins \<Rightarrow>
        (case SendCoinsFromModuleToAccount ctx VirtualGroupModule (GetFundingAccAddress sp)
                coins of
           (Inl err, ctx1) \<Rightarrow> (Inl err, ctx1)
         | (Inr _, ctx1) \<Rightarrow>
        (case EmitTypedEvents ctx1
                (EventUpdateGlobalVirtualGroup (wd_GlobalVirtualGroupId req) 0
                   (gvg_StoredSize gvg) (gvg_TotalDeposit gvg) []) of
           (Inl err, ctx2) \<Rightarrow> (Inl err, ctx2)
         | (Inr _, ctx2) \<Rightarrow> (Inr (), ctx2))))))"
  using assms by (simp add: Withdraw_def Let_def)

lemma withdraw_transfer:
  assumes "ValidateDenom k d" and "0 \<le> n"
      and "n \<le> balances ctx (ModuleAccount VirtualGroupModule) d"
  shows "(case NewCoin k d n of
              Inl err \<Rightarrow> (Inl err, ctx)
            | Inr coins \<Rightarrow>
           (case SendCoinsFromModuleToAccount ctx VirtualGroupModule a coins of
              (Inl err, ctx1) \<Rightarrow> (Inl err, ctx1)
            | (Inr _, ctx1) \<Rightarrow>
           (case EmitTypedEvents ctx1 ev of
              (Inl err, ctx2) \<Rightarrow> (Inl err, ctx2)
            | (Inr _, ctx2) \<Rightarrow> (Inr (), ctx2)))) =
         (Inr (), ctx\<lparr>balances := move_coins (balances ctx) (ModuleAccount VirtualGroupModule)
                         (AddressAccount a) \<lparr>Denom = d, Amount = n\<rparr>,
            events := events ctx @ [ev]\<rparr>)"
  using assms
  by (simp add: NewCoin_def SendCoinsFromModuleToAccount_def SendCoins_def EmitTypedEvents_def)

text \<open>What a transfer does to the two accounts it touches.\<close>

lemma move_coins_balances:
  assumes "sender \<noteq> recipient"
  shows "move_coins b sender recipient coin sender (Denom coin)
           = b sender (Denom coin) - Amount coin"
    and "move_coins b sender recipient coin recipient (Denom coin)
           = b recipient (Denom coin) + Amount coin"
  using assms by (simp_all add: move_coins_def Let_def)

text \<open>
  C5. In \<^verbatim>\<open>Withdraw\<close>, once the caller is the primary SP of the group and the
  denomination is the configured one: negative available tokens abort with a panic (no
  error return); a requested amount of zero withdraws the entire available amount from
  the module pool to the SP's funding address; a positive requested amount above the
  available tokens returns \<open>ErrWithdrawAmountTooLarge\<close> and leaves the state, so also
  every balance, as it was; a positive requested amount within the available tokens is
  the amount withdrawn.
\<close>

theorem Withdraw_available_tokens:
  assumes "MustAccAddressFromHex k (wd_StorageProvider req) = Inr addr"
      and "GetStorageProviderByOperatorOrFundingAddr ctx addr = Some sp"
      and "GetGVG ctx (wd_GlobalVirtualGroupId req) = Some gvg"
      and "gvg_PrimarySpId gvg = sp_Id sp"
      and "Denom (wd_Withdraw req) = DepositDenomForGVG ctx"
  shows
   "(GetAvailableStakingTokens k ctx gvg < 0 \<longrightarrow>
       Withdraw k ctx req =
         (Inl (Panic ''the available tokens is negative when withdraw''), ctx)) \<and>
    (0 \<le> GetAvailableStakingTokens k ctx gvg \<and> Amount (wd_Withdraw req) = 0 \<and>
     ValidateDenom k (DepositDenomForGVG ctx) \<and>
     GetAvailableStakingTokens k ctx gvg
       \<le> balances ctx (ModuleAccount VirtualGroupModule) (DepositDenomForGVG ctx) \<longrightarrow>
       Withdraw k ctx req =
         (Inr (),
          ctx\<lparr>balances := move_coins (balances ctx) (ModuleAccount VirtualGroupModule)
                  (AddressAccount (GetFundingAccAddress sp))
                  \<lparr>Denom = DepositDenomForGVG ctx,
                   Amount = GetAvailableStakingTokens k ctx gvg\<rparr>,
              events := events ctx @
                [EventUpdateGlobalVirtualGroup (wd_GlobalVirtualGroupId req) 0
                   (gvg_StoredSize gvg) (gvg_TotalDeposit gvg) []]\<rparr>)) \<and>
    (0 \<le> GetAvailableStakingTokens k ctx gvg \<and> 0 < Amount (wd_Withdraw req) \<and>
     GetAvailableStakingTokens k ctx gvg < Amount (wd_Withdraw req) \<longrightarrow>
       Withdraw k ctx req = (Inl ErrWithdrawAmountTooLarge, ctx)) \<and>
    (0 < Amount (wd_Withdraw req) \<and>
     Amount (wd_Withdraw req) \<le> GetAvailableStakingTokens k ctx gvg \<and>
     ValidateDenom k (DepositDenomForGVG ctx) \<and>
     Amount (wd_Withdraw req)
       \<le> balances ctx (ModuleAccount VirtualGroupModule) (DepositDenomForGVG ctx) \<longrightarrow>
       Withdraw k ctx req =
         (Inr (),
          ctx\<lparr>balances := move_coins (balances ctx) (ModuleAccount VirtualGroupModule)
                  (AddressAccount (GetFundingAccAddress sp))
                  \<lparr>Denom = DepositDenomForGVG ctx, Amount = Amount (wd_Withdraw req)\<rparr>,
              events := events ctx @
                [EventUpdateGlobalVirtualGroup (wd_GlobalVirtualGroupId req) 0
                   (gvg_StoredSize gvg) (gvg_TotalDeposit gvg) []]\<rparr>))"
proof -
  note W = Withdraw_reached [OF assms]
  have neg: "GetAvailableStakingTokens k ctx gvg < 0 \<longrightarrow>
       Withdraw k ctx req =
         (Inl (Panic ''the available tokens is negative when withdraw''), ctx)"
    by (simp add: W)
  have large: "0 \<le> GetAvailableStakingTokens k ctx gvg \<and> 0 < Amount (wd_Withdraw req) \<and>
     GetAvailableStakingTokens k ctx gvg < Amount (wd_Withdraw req) \<longrightarrow>
       Withdraw k ctx req = (Inl ErrWithdrawAmountTooLarge, ctx)"
    by (simp add: W)
  have zero: "0 \<le> GetAvailableStakingTokens k ctx gvg \<and> Amount (wd_Withdraw req) = 0 \<and>
     ValidateDenom k (DepositDenomForGVG ctx) \<and>
     GetAvailableStakingTokens k ctx gvg
       \<le> balances ctx (ModuleAccount VirtualGroupModule) (DepositDenomForGVG ctx) \<longrightarrow>
       Withdraw k ctx req =
         (Inr (),
          ctx\<lparr>balances := move_coins (balances ctx) (ModuleAccount VirtualGroupModule)
                  (AddressAccount (GetFundingAccAddress sp))
                  \<lparr>Denom = DepositDenomForGVG ctx,
                   Amount = GetAvailableStakingTokens k ctx gvg\<rparr>,
              events := events ctx @
                [EventUpdateGlobalVirtualGroup (wd_GlobalVirtualGroupId req) 0
                   (gvg_StoredSize gvg) (gvg_TotalDeposit gvg) []]\<rparr>)"
    by (simp add: W withdraw_transfer)
  have pos: "0 < Amount (wd_Withdraw req) \<and>
     Amount (wd_Withdraw req) \<le> GetAvailableStakingTokens k ctx gvg \<and>
     ValidateDenom k (DepositDenomForGVG ctx) \<and>
     Amount (wd_Withdraw req)
       \<le> balances ctx (ModuleAccount VirtualGroupModule) (DepositDenomForGVG ctx) \<longrightarrow>
       Withdraw k ctx req =
         (Inr (),
          ctx\<lparr>balances := move_coins (balances ctx) (ModuleAccount VirtualGroupModule)
                  (AddressAccount (GetFundingAccAddress sp))
                  \<lparr>Denom = DepositDenomForGVG ctx, Amount = Amount (wd_Withdraw req)\<rparr>,
              events := events ctx @
                [EventUpdateGlobalVirtualGroup (wd_GlobalVirtualGroupId req) 0
                   (gvg_StoredSize gvg) (gvg_TotalDeposit gvg) []]\<rparr>)"
    by (simp add: W withdraw_transfer)
  from neg zero large pos show ?thesis by blast
qed

text \<open>
  The theorem at work on group 1 of the example chain (deposit 100, required stake 40,
  so 60 available): a request for 0 moves the 60 to the primary's funding address, a
  request for 61 is refused and changes nothing, a request for 25 moves 25, and with a
  deposit of only 10 the handler panics.
\<close>

theorem Withdraw_available_tokens_witness:
  "MustAccAddressFromHex example_keeper (wd_StorageProvider example_withdraw) = Inr ''op1'' \<and>
   GetStorageProviderByOperatorOrFundingAddr example_chain ''op1''
     = Some (example_sp 1 ''op1'' ''fund1'' STATUS_IN_SERVICE) \<and>
   GetGVG example_chain (wd_GlobalVirtualGroupId example_withdraw) = Some example_gvg \<and>
   GetAvailableStakingTokens example_keeper example_chain example_gvg = 60 \<and>
   fst (Withdraw example_keeper example_chain example_withdraw) = Inr () \<and>
   balances (snd (Withdraw example_keeper example_chain example_withdraw))
     (AddressAccount ''fund1'') ''BNB'' = 1060 \<and>
   balances (snd (Withdraw example_keeper example_chain example_withdraw))
     (ModuleAccount VirtualGroupModule) ''BNB'' = 940 \<and>
   Withdraw example_keeper example_chain
     (example_withdraw\<lparr>wd_Withdraw := \<lparr>Denom = ''BNB'', Amount = 61\<rparr>\<rparr>)
     = (Inl ErrWithdrawAmountTooLarge, example_chain) \<and>
   fst (Withdraw example_keeper example_chain
     (example_withdraw\<lparr>wd_Withdraw := \<lparr>Denom = ''BNB'', Amount = 25\<rparr>\<rparr>)) = Inr () \<and>
   balances (snd (Withdraw example_keeper example_chain
     (example_withdraw\<lparr>wd_Withdraw := \<lparr>Denom = ''BNB'', Amount = 25\<rparr>\<rparr>)))
     (AddressAccount ''fund1'') ''BNB'' = 1025 \<and>
   Withdraw example_keeper
     (example_chain\<lparr>gvgs := [1 \<mapsto> example_gvg\<lparr>gvg_TotalDeposit := 10\<rparr>]\<rparr>) example_withdraw
     = (Inl (Panic ''the available tokens is negative when withdraw''),
        example_chain\<lparr>gvgs := [1 \<mapsto> example_gvg\<lparr>gvg_TotalDeposit := 10\<rparr>]\<rparr>)"
  using
    Withdraw_available_tokens [where k = example_keeper and ctx = example_chain
      and req = example_withdraw and addr = "''op1''"
      and sp = "example_sp 1 ''op1'' ''fund1'' STATUS_IN_SERVICE" and gvg = example_gvg]
    Withdraw_available_tokens [where k = example_keeper and ctx = example_chain
      and req = "example_withdraw\<lparr>wd_Withdraw := \<lparr>Denom = ''BNB'', Amount = 61\<rparr>\<rparr>"
      and addr = "''op1''"
      and sp = "example_sp 1 ''op1'' ''fund1'' STATUS_IN_SERVICE" and gvg = example_gvg]
    Withdraw_available_tokens [where k = example_keeper and ctx = example_chain
      and req = "example_withdraw\<lparr>wd_Withdraw := \<lparr>Denom = ''BNB'', Amount = 25\<rparr>\<rparr>"
      and addr = "''op1''"
      and sp = "example_sp 1 ''op1'' ''fund1'' STATUS_IN_SERVICE" and gvg = example_gvg]
    Withdraw_available_tokens [where k = example_keeper
      and ctx = "example_chain\<lparr>gvgs := [1 \<mapsto> example_gvg\<lparr>gvg_TotalDeposit := 10\<rparr>]\<rparr>"
      and req = example_withdraw and addr = "''op1''"
      and sp = "example_sp 1 ''op1'' ''fund1'' STATUS_IN_SERVICE"
      and gvg = "example_gvg\<lparr>gvg_TotalDeposit := 10\<rparr>"]
  by (simp add: Let_def example_defs store_defs)

text \<open>\<^verbatim>\<open>Withdraw\<close> writes no group: the group store is the same after every run.\<close>

lemma Withdraw_gvgs_unchanged: "gvgs (snd (Withdraw k ctx req)) = gvgs ctx"
  by (simp add: Withdraw_def Let_def SendCoinsFromModuleToAccount_def SendCoins_def
      EmitTypedEvents_def split: sum.splits option.splits prod.splits)

text \<open>
  C1 (the code departs from it). On the example chain the primary SP deposits 50 into
  group 1 and then withdraws with amount 0. The deposit raises the recorded total from
  100 to 150; with 40 required, 110 are available and are paid out of the module pool.
  The recorded total deposit is still 150 afterwards, not 40: \<^verbatim>\<open>Withdraw\<close> never
  writes the group. A second withdrawal therefore finds the same 110 available and pays
  them out again.
\<close>

theorem Withdraw_total_deposit_not_reduced:
  "fst (Deposit example_keeper example_chain example_deposit) = Inr () \<and>
   map_option gvg_TotalDeposit
     (GetGVG (snd (Deposit example_keeper example_chain example_deposit)) 1) = Some 150 \<and>
   fst (Withdraw example_keeper (snd (Deposit example_keeper example_chain example_deposit))
          example_withdraw) = Inr () \<and>
   balances (snd (Withdraw example_keeper
                    (snd (Deposit example_keeper example_chain example_deposit))
                    example_withdraw))
     (AddressAccount ''fund1'') ''BNB'' = 950 + 110 \<and>
   map_option gvg_TotalDeposit
     (GetGVG (snd (Withdraw example_keeper
                     (snd (Deposit example_keeper example_chain example_deposit))
                     example_withdraw)) 1) = Some 150 \<and>
   balances (snd (Withdraw example_keeper
                    (snd (Withdraw example_keeper
                            (snd (Deposit example_keeper example_chain example_deposit))
                            example_withdraw))
                    example_withdraw))
     (AddressAccount ''fund1'') ''BNB'' = 950 + 110 + 110"
  by (simp add: Deposit_def Withdraw_def Let_def example_defs store_defs)

section \<open>Deposit\<close>

lemma Deposit_reached:
  assumes "MustAccAddressFromHex k (dp_StorageProvider req) = Inr addr"
      and "GetStorageProviderByOperatorOrFundingAddr ctx addr = Some sp"
      and "GetGVG ctx (dp_GlobalVirtualGroupId req) = Some gvg"
      and "Denom (dp_Deposit req) = DepositDenomForGVG ctx"
      and "ValidateDenom k (DepositDenomForGVG ctx)"
      and "0 \<le> Amount (dp_Deposit req)"
      and "Amount (dp_Deposit req)
             \<le> balances ctx (AddressAccount (GetFundingAccAddress sp)) (DepositDenomForGVG ctx)"
      and "\<bar>gvg_TotalDeposit gvg + Amount (dp_Deposit req)\<bar> < 2 ^ 256"
  shows "Deposit k ctx req =
     (Inr (),
      ctx\<lparr>balances := move_coins (balances ctx) (AddressAccount (GetFundingAccAddress sp))
              (ModuleAccount VirtualGroupModule)
              \<lparr>Denom = DepositDenomForGVG ctx, Amount = Amount (dp_Deposit req)\<rparr>,
          gvgs := (gvgs ctx)(gvg_Id gvg \<mapsto>
              gvg\<lparr>gvg_TotalDeposit := gvg_TotalDeposit gvg + Amount (dp_Deposit req)\<rparr>),
          events := events ctx @
            [EventUpdateGlobalVirtualGroup (gvg_Id gvg) (gvg_PrimarySpId gvg)
               (gvg_StoredSize gvg) (gvg_TotalDeposit gvg + Amount (dp_Deposit req))
               (gvg_SecondarySpIds gvg)]\<rparr>)"
  using assms
  by (simp add: Deposit_def Let_def NewCoin_def SendCoinsFromAccountToModule_def SendCoins_def
      Int_Add_def SetGVG_def EmitTypedEvents_def)

lemma Deposit_success_needs:
  assumes "fst (Deposit k ctx req) = Inr ()"
  shows "\<exists>addr sp gvg.
           MustAccAddressFromHex k (dp_StorageProvider req) = Inr addr \<and>
           GetStorageProviderByOperatorOrFundingAddr ctx addr = Some sp \<and>
           GetGVG ctx (dp_GlobalVirtualGroupId req) = Some gvg \<and>
           Denom (dp_Deposit req) = DepositDenomForGVG ctx"
  using assms
  by (auto simp: Deposit_def Let_def split: sum.splits option.splits if_splits)

lemma Deposit_unknown_sp:
  assumes "MustAccAddressFromHex k (dp_StorageProvider req) = Inr addr"
      and "GetStorageProviderByOperatorOrFundingAddr ctx addr = None"
  shows "Deposit k ctx req = (Inl ErrStorageProviderNotFound, ctx)"
  using assms by (simp add: Deposit_def)

text \<open>
  C4 (as amended). \<^verbatim>\<open>Deposit\<close> succeeds only when the calling address resolves, as
  operator or funding address, to a registered storage provider, the target group exists
  and the denomination is the configured one; a request from an address that resolves to
  no provider fails with \<open>ErrStorageProviderNotFound\<close>. The provider need not be a
  member of the group: for any registered provider the request succeeds when the amount
  is not negative, the funding account covers it and the new total stays in range, and it
  raises the group's total deposit by the amount.
\<close>

theorem Deposit_by_registered_sp:
  "(fst (Deposit k ctx req) = Inr () \<longrightarrow>
      (\<exists>addr sp gvg.
           MustAccAddressFromHex k (dp_StorageProvider req) = Inr addr \<and>
           GetStorageProviderByOperatorOrFundingAddr ctx addr = Some sp \<and>
           GetGVG ctx (dp_GlobalVirtualGroupId req) = Some gvg \<and>
           Denom (dp_Deposit req) = DepositDenomForGVG ctx)) \<and>
   (\<forall>addr. MustAccAddressFromHex k (dp_StorageProvider req) = Inr addr \<and>
           GetStorageProviderByOperatorOrFundingAddr ctx addr = None \<longrightarrow>
           Deposit k ctx req = (Inl ErrStorageProviderNotFound, ctx)) \<and>
   (\<forall>addr sp gvg.
        MustAccAddressFromHex k (dp_StorageProvider req) = Inr addr \<and>
        GetStorageProviderByOperatorOrFundingAddr ctx addr = Some sp \<and>
        GetGVG ctx (dp_GlobalVirtualGroupId req) = Some gvg \<and>
        Denom (dp_Deposit req) = DepositDenomForGVG ctx \<and>
        ValidateDenom k (DepositDenomForGVG ctx) \<and>
        0 \<le> Amount (dp_Deposit req) \<and>
        Amount (dp_Deposit req)
          \<le> balances ctx (AddressAccount (GetFundingAccAddress sp)) (DepositDenomForGVG ctx) \<and>
        \<bar>gvg_TotalDeposit gvg + Amount (dp_Deposit req)\<bar> < 2 ^ 256 \<longrightarrow>
        fst (Deposit k ctx req) = Inr () \<and>
        GetGVG (snd (Deposit k ctx req)) (gvg_Id gvg)
          = Some (gvg\<lparr>gvg_TotalDeposit := gvg_TotalDeposit gvg + Amount (dp_Deposit req)\<rparr>))"
proof (intro conjI allI impI)
  assume "fst (Deposit k ctx req) = Inr ()"
  then show "\<exists>addr sp gvg.
           MustAccAddressFromHex k (dp_StorageProvider req) = Inr addr \<and>
           GetStorageProviderByOperatorOrFundingAddr ctx addr = Some sp \<and>
           GetGVG ctx (dp_GlobalVirtualGroupId req) = Some gvg \<and>
           Denom (dp_Deposit req) = DepositDenomForGVG ctx"
    by (rule Deposit_success_needs)
next
  fix addr
  assume "MustAccAddressFromHex k (dp_StorageProvider req) = Inr addr \<and>
           GetStorageProviderByOperatorOrFundingAddr ctx addr = None"
  then show "Deposit k ctx req = (Inl ErrStorageProviderNotFound, ctx)"
    by (simp add: Deposit_unknown_sp)
next
  fix addr sp gvg
  assume a: "MustAccAddressFromHex k (dp_StorageProvider req) = Inr addr \<and>
        GetStorageProviderByOperatorOrFundingAddr ctx addr = Some sp \<and>
        GetGVG ctx (dp_GlobalVirtualGroupId req) = Some gvg \<and>
        Denom (dp_Deposit req) = DepositDenomForGVG ctx \<and>
        ValidateDenom k (DepositDenomForGVG ctx) \<and>
        0 \<le> Amount (dp_Deposit req) \<and>
        Amount (dp_Deposit req)
          \<le> balances ctx (AddressAccount (GetFundingAccAddress sp)) (DepositDenomForGVG ctx) \<and>
        \<bar>gvg_TotalDeposit gvg + Amount (dp_Deposit req)\<bar> < 2 ^ 256"
  have D: "Deposit k ctx req =
     (Inr (),
      ctx\<lparr>balances := move_coins (balances ctx) (AddressAccount (GetFundingAccAddress sp))
              (ModuleAccount VirtualGroupModule)
              \<lparr>Denom = DepositDenomForGVG ctx, Amount = Amount (dp_Deposit req)\<rparr>,
          gvgs := (gvgs ctx)(gvg_Id gvg \<mapsto>
              gvg\<lparr>gvg_TotalDeposit := gvg_TotalDeposit gvg + Amount (dp_Deposit req)\<rparr>),
          events := events ctx @
            [EventUpdateGlobalVirtualGroup (gvg_Id gvg) (gvg_PrimarySpId gvg)
               (gvg_StoredSize gvg) (gvg_TotalDeposit gvg + Amount (dp_Deposit req))
               (gvg_SecondarySpIds gvg)]\<rparr>)"
    using a by (simp add: Deposit_reached [where addr = addr and sp = sp and gvg = gvg])
  show "fst (Deposit k ctx req) = Inr ()"
    by (simp add: D)
  show "GetGVG (snd (Deposit k ctx req)) (gvg_Id gvg)
          = Some (gvg\<lparr>gvg_TotalDeposit := gvg_TotalDeposit gvg + Amount (dp_Deposit req)\<rparr>)"
    by (simp add: D GetGVG_def)
qed

text \<open>
  The theorem at work: provider 5 of the example chain, found by its funding address,
  deposits 50 into group 1; an address of no provider is turned away.
\<close>

theorem Deposit_by_registered_sp_witness:
  "MustAccAddressFromHex example_keeper
     (dp_StorageProvider (example_deposit\<lparr>dp_StorageProvider := ''fund5''\<rparr>)) = Inr ''fund5'' \<and>
   GetStorageProviderByOperatorOrFundingAddr example_chain ''fund5''
     = Some (example_sp 5 ''op5'' ''fund5'' STATUS_IN_SERVICE) \<and>
   GetGVG example_chain 1 = Some example_gvg \<and>
   fst (Deposit example_keeper example_chain
          (example_deposit\<lparr>dp_StorageProvider := ''fund5''\<rparr>)) = Inr () \<and>
   GetGVG (snd (Deposit example_keeper example_chain
                  (example_deposit\<lparr>dp_StorageProvider := ''fund5''\<rparr>))) 1
     = Some (example_gvg\<lparr>gvg_TotalDeposit := 150\<rparr>) \<and>
   GetStorageProviderByOperatorOrFundingAddr example_chain ''nobody'' = None \<and>
   Deposit example_keeper example_chain (example_deposit\<lparr>dp_StorageProvider := ''nobody''\<rparr>)
     = (Inl ErrStorageProviderNotFound, example_chain)"
  using
    Deposit_by_registered_sp [where k = example_keeper and ctx = example_chain
      and req = "example_deposit\<lparr>dp_StorageProvider := ''fund5''\<rparr>"]
    Deposit_by_registered_sp [where k = example_keeper and ctx = example_chain
      and req = "example_deposit\<lparr>dp_StorageProvider := ''nobody''\<rparr>"]
  by (simp add: Deposit_def Let_def example_defs store_defs)

text \<open>
  C4 as stated fails: provider 5 is neither the primary (provider 1) nor a secondary
  (providers 2, 3, 4) of group 1, and its deposit succeeds.
\<close>

theorem Deposit_non_member_counterexample:
  "GetStorageProviderByOperatorOrFundingAddr example_chain ''op5''
     = Some (example_sp 5 ''op5'' ''fund5'' STATUS_IN_SERVICE) \<and>
   GetGVG example_chain 1 = Some example_gvg \<and>
   sp_Id (example_sp 5 ''op5'' ''fund5'' STATUS_IN_SERVICE) \<noteq> gvg_PrimarySpId example_gvg \<and>
   sp_Id (example_sp 5 ''op5'' ''fund5'' STATUS_IN_SERVICE) \<notin> set (gvg_SecondarySpIds example_gvg) \<and>
   fst (Deposit example_keeper example_chain (example_deposit\<lparr>dp_StorageProvider := ''op5''\<rparr>))
     = Inr () \<and>
   map_option gvg_TotalDeposit
     (GetGVG (snd (Deposit example_keeper example_chain
                     (example_deposit\<lparr>dp_StorageProvider := ''op5''\<rparr>))) 1) = Some 150"
  by (simp add: Deposit_def Let_def example_defs store_defs)

section \<open>The exit-concurrency loop\<close>

lemma unat_succ_below:
  fixes n m :: u32
  assumes "n < m"
  shows "unat (n + 1) = Suc (unat n)"
proof -
  have "unat n < unat m" using assms by (simp add: word_less_nat_alt)
  moreover have "unat m < 2 ^ 32" using unsigned_less [of m] by simp
  ultimately have "unat n + 1 < 2 ^ 32" by simp
  then show ?thesis by (simp add: unat_word_ariths)
qed

lemma count_exiting_sps_below:
  assumes "exitingSPNum < maxSPExitingNum"
  shows "count_exiting_sps maxSPExitingNum exitingSPNum xs =
     (if unat maxSPExitingNum \<le> unat exitingSPNum + length (filter is_exiting xs)
      then Some ErrStorageProviderExitFailed else None)"
  using assms
proof (induction xs arbitrary: exitingSPNum)
  case Nil
  then show ?case by (simp add: word_less_nat_alt)
next
  case (Cons x xs)
  show ?case
  proof (cases "is_exiting x")
    case False
    then show ?thesis using Cons by (simp add: is_exiting_def)
  next
    case True
    have s: "unat (exitingSPNum + 1) = Suc (unat exitingSPNum)"
      using Cons.prems by (rule unat_succ_below)
    show ?thesis
    proof (cases "maxSPExitingNum \<le> exitingSPNum + 1")
      case True
      then have "unat maxSPExitingNum \<le> Suc (unat exitingSPNum)"
        using s by (simp add: word_le_nat_alt)
      with True \<open>is_exiting x\<close> show ?thesis by (simp add: is_exiting_def Let_def)
    next
      case False
      then have lt: "exitingSPNum + 1 < maxSPExitingNum" by simp
      from Cons.IH [OF lt] False \<open>is_exiting x\<close> s show ?thesis
        by (simp add: is_exiting_def Let_def)
    qed
  qed
qed

lemma count_exiting_sps_zero_cap:
  "count_exiting_sps 0 exitingSPNum xs =
     (if filter is_exiting xs \<noteq> [] then Some ErrStorageProviderExitFailed else None)"
  by (induction xs arbitrary: exitingSPNum) (simp_all add: is_exiting_def Let_def)

text \<open>
  The loop as a count: it fails exactly when at least one provider is exiting and the
  number of exiting providers has reached the cap. The 32-bit counter never wraps.
\<close>

lemma count_exiting_sps_eq:
  "count_exiting_sps maxSPExitingNum 0 xs =
     (if 0 < length (filter is_exiting xs) \<and>
         unat maxSPExitingNum \<le> length (filter is_exiting xs)
      then Some ErrStorageProviderExitFailed else None)"
proof (cases "maxSPExitingNum = 0")
  case True
  then show ?thesis by (simp add: count_exiting_sps_zero_cap)
next
  case False
  then have pos: "0 < maxSPExitingNum" by (simp add: word_greater_zero_iff)
  then have "0 < unat maxSPExitingNum" by (simp add: word_less_nat_alt)
  then show ?thesis
    using count_exiting_sps_below [OF pos, of xs] by auto
qed

text \<open>A provider found by its operator address is found by its id.\<close>

lemma found_by_operator_has_id:
  assumes "GetStorageProviderByOperatorAddr ctx a = Some sp"
  shows "find (\<lambda>x. sp_Id x = sp_Id sp) (sps ctx) \<noteq> None"
proof -
  from assms have "sp \<in> set (sps ctx)"
    by (auto simp: GetStorageProviderByOperatorAddr_def find_Some_iff)
  then show ?thesis by (auto simp: find_None_iff)
qed

lemma find_operator_after_replace:
  assumes "find (\<lambda>x. sp_OperatorAddress x = a) xs = Some sp"
      and "sp_OperatorAddress sp1 = a"
  shows "find (\<lambda>x. sp_OperatorAddress x = a)
           (map (\<lambda>x. if sp_Id x = sp_Id sp then sp1 else x) xs) = Some sp1"
  using assms by (induction xs) (auto split: if_splits)

text \<open>
  Writing a provider's record with a new status: the lookup by operator address returns
  the new record, and the events are untouched.
\<close>

lemma SetStorageProvider_status:
  assumes "GetStorageProviderByOperatorAddr ctx a = Some sp"
  shows "GetStorageProviderByOperatorAddr
           (SetStorageProvider ctx (sp\<lparr>sp_Status := st\<rparr>)\<lparr>events := evs\<rparr>) a
           = Some (sp\<lparr>sp_Status := st\<rparr>)"
proof -
  have a: "sp_OperatorAddress sp = a"
    using assms by (auto simp: GetStorageProviderByOperatorAddr_def find_Some_iff)
  have "find (\<lambda>x. sp_Id x = sp_Id sp) (sps ctx) \<noteq> None"
    using assms by (rule found_by_operator_has_id)
  moreover have "find (\<lambda>x. sp_OperatorAddress x = a)
           (map (\<lambda>x. if sp_Id x = sp_Id sp then sp\<lparr>sp_Status := st\<rparr> else x) (sps ctx))
           = Some (sp\<lparr>sp_Status := st\<rparr>)"
    using assms a
    by (intro find_operator_after_replace) (simp_all add: GetStorageProviderByOperatorAddr_def)
  ultimately show ?thesis
    by (auto simp: SetStorageProvider_def GetStorageProviderByOperatorAddr_def)
qed

lemma SetStorageProvider_events [simp]:
  "events (SetStorageProvider ctx sp) = events ctx"
  by (simp add: SetStorageProvider_def)

section \<open>StorageProviderExit\<close>

lemma StorageProviderExit_reached:
  assumes "MustAccAddressFromHex k (ex_StorageProvider msg) = Inr operatorAddr"
      and "GetStorageProviderByOperatorAddr ctx operatorAddr = Some sp"
      and "sp_Status sp = STATUS_IN_SERVICE"
  shows "StorageProviderExit k ctx msg =
     (if IsUpgraded ctx Hulunbeier \<and> break_redundancy_count ctx (sp_Id sp) \<noteq> 0
      then (Inl ErrSPCanNotExit, ctx)
      else if IsUpgraded ctx Hulunbeier \<and> 0 < num_exiting_sps ctx \<and>
              unat (SpConcurrentExitNum_of ctx) \<le> num_exiting_sps ctx
      then (Inl ErrStorageProviderExitFailed, ctx)
      else (Inr (),
            (SetStorageProvider ctx (sp\<lparr>sp_Status := STATUS_GRACEFUL_EXITING\<rparr>))
              \<lparr>events := events ctx @
                 [EventStorageProviderExit (sp_Id sp) (sp_OperatorAddress sp)]\<rparr>))"
  using assms
  by (simp add: StorageProviderExit_def exit_checks_hulunbeier_def count_exiting_sps_eq
      break_redundancy_count_def num_exiting_sps_def EmitTypedEvents_def Let_def
      split: option.splits)

text \<open>
  C6 (as amended). For a voluntary \<^verbatim>\<open>StorageProviderExit\<close> request of a registered
  provider: it fails whenever the provider is not \<open>IN_SERVICE\<close>; once the Hulunbeier
  upgrade is active it fails whenever the provider's redundancy-break counter is nonzero,
  and whenever at least one provider is in an exiting status and the number of such
  providers has reached the configured cap; before Hulunbeier neither of the two is
  checked. When the preconditions hold, the provider's status becomes
  \<open>GRACEFUL_EXITING\<close> and one exit event is emitted.
\<close>

theorem StorageProviderExit_preconditions:
  assumes "MustAccAddressFromHex k (ex_StorageProvider msg) = Inr operatorAddr"
      and "GetStorageProviderByOperatorAddr ctx operatorAddr = Some sp"
  shows
   "(sp_Status sp \<noteq> STATUS_IN_SERVICE \<longrightarrow>
       StorageProviderExit k ctx msg = (Inl ErrStorageProviderExitFailed, ctx)) \<and>
    (sp_Status sp = STATUS_IN_SERVICE \<and> IsUpgraded ctx Hulunbeier \<and>
     break_redundancy_count ctx (sp_Id sp) \<noteq> 0 \<longrightarrow>
       StorageProviderExit k ctx msg = (Inl ErrSPCanNotExit, ctx)) \<and>
    (sp_Status sp = STATUS_IN_SERVICE \<and> IsUpgraded ctx Hulunbeier \<and>
     break_redundancy_count ctx (sp_Id sp) = 0 \<and>
     0 < num_exiting_sps ctx \<and> unat (SpConcurrentExitNum_of ctx) \<le> num_exiting_sps ctx \<longrightarrow>
       StorageProviderExit k ctx msg = (Inl ErrStorageProviderExitFailed, ctx)) \<and>
    (sp_Status sp = STATUS_IN_SERVICE \<and>
     (\<not> IsUpgraded ctx Hulunbeier \<or>
      break_redundancy_count ctx (sp_Id sp) = 0 \<and>
      (num_exiting_sps ctx = 0 \<or> num_exiting_sps ctx < unat (SpConcurrentExitNum_of ctx))) \<longrightarrow>
       StorageProviderExit k ctx msg =
         (Inr (),
          (SetStorageProvider ctx (sp\<lparr>sp_Status := STATUS_GRACEFUL_EXITING\<rparr>))
            \<lparr>events := events ctx @
               [EventStorageProviderExit (sp_Id sp) (sp_OperatorAddress sp)]\<rparr>) \<and>
       GetStorageProviderByOperatorAddr (snd (StorageProviderExit k ctx msg)) operatorAddr
         = Some (sp\<lparr>sp_Status := STATUS_GRACEFUL_EXITING\<rparr>))"
proof -
  have not_in_service: "sp_Status sp \<noteq> STATUS_IN_SERVICE \<longrightarrow>
       StorageProviderExit k ctx msg = (Inl ErrStorageProviderExitFailed, ctx)"
    using assms by (simp add: StorageProviderExit_def)
  note R = StorageProviderExit_reached [OF assms]
  have broken: "sp_Status sp = STATUS_IN_SERVICE \<and> IsUpgraded ctx Hulunbeier \<and>
     break_redundancy_count ctx (sp_Id sp) \<noteq> 0 \<longrightarrow>
       StorageProviderExit k ctx msg = (Inl ErrSPCanNotExit, ctx)"
    by (simp add: R)
  have cap: "sp_Status sp = STATUS_IN_SERVICE \<and> IsUpgraded ctx Hulunbeier \<and>
     break_redundancy_count ctx (sp_Id sp) = 0 \<and>
     0 < num_exiting_sps ctx \<and> unat (SpConcurrentExitNum_of ctx) \<le> num_exiting_sps ctx \<longrightarrow>
       StorageProviderExit k ctx msg = (Inl ErrStorageProviderExitFailed, ctx)"
    by (simp add: R)
  have ok: "sp_Status sp = STATUS_IN_SERVICE \<and>
     (\<not> IsUpgraded ctx Hulunbeier \<or>
      break_redundancy_count ctx (sp_Id sp) = 0 \<and>
      (num_exiting_sps ctx = 0 \<or> num_exiting_sps ctx < unat (SpConcurrentExitNum_of ctx))) \<longrightarrow>
       StorageProviderExit k ctx msg =
         (Inr (),
          (SetStorageProvider ctx (sp\<lparr>sp_Status := STATUS_GRACEFUL_EXITING\<rparr>))
            \<lparr>events := events ctx @
               [EventStorageProviderExit (sp_Id sp) (sp_OperatorAddress sp)]\<rparr>) \<and>
       GetStorageProviderByOperatorAddr (snd (StorageProviderExit k ctx msg)) operatorAddr
         = Some (sp\<lparr>sp_Status := STATUS_GRACEFUL_EXITING\<rparr>)"
    using SetStorageProvider_status [OF assms(2)] by (auto simp: R)
  from not_in_service broken cap ok show ?thesis by blast
qed

text \<open>
  The theorem at work: on the example chain provider 1 leaves gracefully; on the chain
  where provider 2 is already exiting (cap 1), provider 1 is refused for its two
  redundancy-breaking groups, and for the cap once its counter is cleared; provider 3, in
  maintenance, is refused for its status.
\<close>

theorem StorageProviderExit_preconditions_witness:
  "MustAccAddressFromHex example_keeper (ex_StorageProvider \<lparr>ex_StorageProvider = ''op1''\<rparr>)
     = Inr ''op1'' \<and>
   GetStorageProviderByOperatorAddr example_chain ''op1''
     = Some (example_sp 1 ''op1'' ''fund1'' STATUS_IN_SERVICE) \<and>
   IsUpgraded example_chain Hulunbeier \<and>
   break_redundancy_count example_chain 1 = 0 \<and>
   num_exiting_sps example_chain = 0 \<and>
   fst (StorageProviderExit example_keeper example_chain \<lparr>ex_StorageProvider = ''op1''\<rparr>)
     = Inr () \<and>
   GetStorageProviderByOperatorAddr
     (snd (StorageProviderExit example_keeper example_chain \<lparr>ex_StorageProvider = ''op1''\<rparr>))
     ''op1'' = Some (example_sp 1 ''op1'' ''fund1'' STATUS_GRACEFUL_EXITING) \<and>
   events (snd (StorageProviderExit example_keeper example_chain
                  \<lparr>ex_StorageProvider = ''op1''\<rparr>))
     = [EventStorageProviderExit 1 ''op1''] \<and>
   break_redundancy_count example_chain_exiting 1 = 2 \<and>
   StorageProviderExit example_keeper example_chain_exiting \<lparr>ex_StorageProvider = ''op1''\<rparr>
     = (Inl ErrSPCanNotExit, example_chain_exiting) \<and>
   num_exiting_sps (example_chain_exiting\<lparr>gvgStatistics := Map.empty\<rparr>) = 1 \<and>
   unat (SpConcurrentExitNum_of (example_chain_exiting\<lparr>gvgStatistics := Map.empty\<rparr>)) = 1 \<and>
   StorageProviderExit example_keeper (example_chain_exiting\<lparr>gvgStatistics := Map.empty\<rparr>)
       \<lparr>ex_StorageProvider = ''op1''\<rparr>
     = (Inl ErrStorageProviderExitFailed, example_chain_exiting\<lparr>gvgStatistics := Map.empty\<rparr>) \<and>
   StorageProviderExit example_keeper example_chain_exiting \<lparr>ex_StorageProvider = ''op3''\<rparr>
     = (Inl ErrStorageProviderExitFailed, example_chain_exiting)"
  using
    StorageProviderExit_preconditions [where k = example_keeper and ctx = example_chain
      and msg = "\<lparr>ex_StorageProvider = ''op1''\<rparr>" and operatorAddr = "''op1''"
      and sp = "example_sp 1 ''op1'' ''fund1'' STATUS_IN_SERVICE"]
    StorageProviderExit_preconditions [where k = example_keeper and ctx = example_chain_exiting
      and msg = "\<lparr>ex_StorageProvider = ''op1''\<rparr>" and operatorAddr = "''op1''"
      and sp = "example_sp 1 ''op1'' ''fund1'' STATUS_IN_SERVICE"]
    StorageProviderExit_preconditions [where k = example_keeper
      and ctx = "example_chain_exiting\<lparr>gvgStatistics := Map.empty\<rparr>"
      and msg = "\<lparr>ex_StorageProvider = ''op1''\<rparr>" and operatorAddr = "''op1''"
      and sp = "example_sp 1 ''op1'' ''fund1'' STATUS_IN_SERVICE"]
    StorageProviderExit_preconditions [where k = example_keeper and ctx = example_chain_exiting
      and msg = "\<lparr>ex_StorageProvider = ''op3''\<rparr>" and operatorAddr = "''op3''"
      and sp = "example_sp 3 ''op3'' ''fund3'' STATUS_IN_MAINTENANCE"]
  by (simp add: Let_def example_defs store_defs)

text \<open>
  C6 as stated fails before the Hulunbeier upgrade: provider 1 has two groups that break
  the redundancy requirement, provider 2 is already exiting and the cap is 1, and the
  request of provider 1 succeeds all the same.
\<close>

theorem StorageProviderExit_before_hulunbeier_counterexample:
  "GetStorageProviderByOperatorAddr example_chain_before_hulunbeier ''op1''
     = Some (example_sp 1 ''op1'' ''fund1'' STATUS_IN_SERVICE) \<and>
   break_redundancy_count example_chain_before_hulunbeier 1 = 2 \<and>
   num_exiting_sps example_chain_before_hulunbeier = 1 \<and>
   unat (SpConcurrentExitNum_of example_chain_before_hulunbeier) = 1 \<and>
   fst (StorageProviderExit example_keeper example_chain_before_hulunbeier
          \<lparr>ex_StorageProvider = ''op1''\<rparr>) = Inr () \<and>
   GetStorageProviderByOperatorAddr
     (snd (StorageProviderExit example_keeper example_chain_before_hulunbeier
             \<lparr>ex_StorageProvider = ''op1''\<rparr>)) ''op1''
     = Some (example_sp 1 ''op1'' ''fund1'' STATUS_GRACEFUL_EXITING)"
  by (simp add: StorageProviderExit_def Let_def example_defs store_defs)

section \<open>StorageProviderForcedExit\<close>

lemma StorageProviderForcedExit_reached:
  assumes "GetAuthority k = fe_Authority msg"
      and "MustAccAddressFromHex k (fe_StorageProvider msg) = Inr spAddr"
      and "GetStorageProviderByOperatorAddr ctx spAddr = Some sp"
  shows "StorageProviderForcedExit k ctx msg =
     (if 0 < num_exiting_sps ctx \<and> unat (SpConcurrentExitNum_of ctx) \<le> num_exiting_sps ctx
      then (Inl ErrStorageProviderExitFailed, ctx)
      else (Inr (),
            (SetStorageProvider ctx (sp\<lparr>sp_Status := STATUS_FORCED_EXITING\<rparr>))
              \<lparr>events := events ctx @ [EventStorageProviderForcedExit (sp_Id sp)]\<rparr>))"
  using assms
  by (simp add: StorageProviderForcedExit_def count_exiting_sps_eq num_exiting_sps_def
      EmitTypedEvents_def Let_def)

text \<open>
  C7. \<^verbatim>\<open>StorageProviderForcedExit\<close> is refused with the invalid-signer error unless the
  request names the configured authority. From the authority, for a provider that exists,
  the outcome depends on nothing but the exit-concurrency cap: neither the provider's
  status nor its redundancy-break counter is consulted. The request fails, with
  \<open>ErrStorageProviderExitFailed\<close>, exactly when at least one provider is exiting and
  the number of exiting providers has reached the cap; otherwise it succeeds, the
  provider's status becomes \<open>FORCED_EXITING\<close> and the forced-exit event is emitted.
\<close>

theorem StorageProviderForcedExit_by_authority:
  "(GetAuthority k \<noteq> fe_Authority msg \<longrightarrow>
      StorageProviderForcedExit k ctx msg = (Inl ErrInvalidSigner, ctx)) \<and>
   (\<forall>spAddr sp.
      GetAuthority k = fe_Authority msg \<and>
      MustAccAddressFromHex k (fe_StorageProvider msg) = Inr spAddr \<and>
      GetStorageProviderByOperatorAddr ctx spAddr = Some sp \<longrightarrow>
      (if 0 < num_exiting_sps ctx \<and> unat (SpConcurrentExitNum_of ctx) \<le> num_exiting_sps ctx
       then StorageProviderForcedExit k ctx msg = (Inl ErrStorageProviderExitFailed, ctx)
       else StorageProviderForcedExit k ctx msg =
              (Inr (),
               (SetStorageProvider ctx (sp\<lparr>sp_Status := STATUS_FORCED_EXITING\<rparr>))
                 \<lparr>events := events ctx @ [EventStorageProviderForcedExit (sp_Id sp)]\<rparr>) \<and>
            GetStorageProviderByOperatorAddr (snd (StorageProviderForcedExit k ctx msg)) spAddr
              = Some (sp\<lparr>sp_Status := STATUS_FORCED_EXITING\<rparr>)))"
proof (intro conjI allI impI)
  assume "GetAuthority k \<noteq> fe_Authority msg"
  then show "StorageProviderForcedExit k ctx msg = (Inl ErrInvalidSigner, ctx)"
    by (simp add: StorageProviderForcedExit_def)
next
  fix spAddr sp
  assume a: "GetAuthority k = fe_Authority msg \<and>
      MustAccAddressFromHex k (fe_StorageProvider msg) = Inr spAddr \<and>
      GetStorageProviderByOperatorAddr ctx spAddr = Some sp"
  then have R: "StorageProviderForcedExit k ctx msg =
     (if 0 < num_exiting_sps ctx \<and> unat (SpConcurrentExitNum_of ctx) \<le> num_exiting_sps ctx
      then (Inl ErrStorageProviderExitFailed, ctx)
      else (Inr (),
            (SetStorageProvider ctx (sp\<lparr>sp_Status := STATUS_FORCED_EXITING\<rparr>))
              \<lparr>events := events ctx @ [EventStorageProviderForcedExit (sp_Id sp)]\<rparr>))"
    by (simp add: StorageProviderForcedExit_reached)
  from a have found: "GetStorageProviderByOperatorAddr ctx spAddr = Some sp" by simp
  show "if 0 < num_exiting_sps ctx \<and> unat (SpConcurrentExitNum_of ctx) \<le> num_exiting_sps ctx
       then StorageProviderForcedExit k ctx msg = (Inl ErrStorageProviderExitFailed, ctx)
       else StorageProviderForcedExit k ctx msg =
              (Inr (),
               (SetStorageProvider ctx (sp\<lparr>sp_Status := STATUS_FORCED_EXITING\<rparr>))
                 \<lparr>events := events ctx @ [EventStorageProviderForcedExit (sp_Id sp)]\<rparr>) \<and>
            GetStorageProviderByOperatorAddr (snd (StorageProviderForcedExit k ctx msg)) spAddr
              = Some (sp\<lparr>sp_Status := STATUS_FORCED_EXITING\<rparr>)"
    using SetStorageProvider_status [OF found] by (auto simp: R)
qed

text \<open>
  The theorem at work: on the example chain the authority forces out provider 1; with
  cap 2 on the chain where provider 2 is already exiting, it forces out provider 3 (in
  maintenance) and provider 1 (two redundancy-breaking groups); with cap 1 there, the
  request fails; and a sender that is not the authority is refused.
\<close>

theorem StorageProviderForcedExit_by_authority_witness:
  "GetAuthority example_keeper = ''gov'' \<and>
   GetStorageProviderByOperatorAddr example_chain ''op1''
     = Some (example_sp 1 ''op1'' ''fund1'' STATUS_IN_SERVICE) \<and>
   num_exiting_sps example_chain = 0 \<and>
   fst (StorageProviderForcedExit example_keeper example_chain
          \<lparr>fe_Authority = ''gov'', fe_StorageProvider = ''op1''\<rparr>) = Inr () \<and>
   GetStorageProviderByOperatorAddr
     (snd (StorageProviderForcedExit example_keeper example_chain
          \<lparr>fe_Authority = ''gov'', fe_StorageProvider = ''op1''\<rparr>)) ''op1''
     = Some (example_sp 1 ''op1'' ''fund1'' STATUS_FORCED_EXITING) \<and>
   events (snd (StorageProviderForcedExit example_keeper example_chain
          \<lparr>fe_Authority = ''gov'', fe_StorageProvider = ''op1''\<rparr>))
     = [EventStorageProviderForcedExit 1] \<and>
   GetStorageProviderByOperatorAddr
     (snd (StorageProviderForcedExit example_keeper
             (example_chain_exiting\<lparr>params := (params example_chain)\<lparr>SpConcurrentExitNum := 2\<rparr>\<rparr>)
          \<lparr>fe_Authority = ''gov'', fe_StorageProvider = ''op3''\<rparr>)) ''op3''
     = Some (example_sp 3 ''op3'' ''fund3'' STATUS_FORCED_EXITING) \<and>
   break_redundancy_count example_chain_exiting 1 = 2 \<and>
   GetStorageProviderByOperatorAddr
     (snd (StorageProviderForcedExit example_keeper
             (example_chain_exiting\<lparr>params := (params example_chain)\<lparr>SpConcurrentExitNum := 2\<rparr>\<rparr>)
          \<lparr>fe_Authority = ''gov'', fe_StorageProvider = ''op1''\<rparr>)) ''op1''
     = Some (example_sp 1 ''op1'' ''fund1'' STATUS_FORCED_EXITING) \<and>
   num_exiting_sps example_chain_exiting = 1 \<and>
   unat (SpConcurrentExitNum_of example_chain_exiting) = 1 \<and>
   StorageProviderForcedExit example_keeper example_chain_exiting
       \<lparr>fe_Authority = ''gov'', fe_StorageProvider = ''op1''\<rparr>
     = (Inl ErrStorageProviderExitFailed, example_chain_exiting) \<and>
   StorageProviderForcedExit example_keeper example_chain
       \<lparr>fe_Authority = ''mallory'', fe_StorageProvider = ''op1''\<rparr>
     = (Inl ErrInvalidSigner, example_chain)"
  using
    StorageProviderForcedExit_by_authority [where k = example_keeper and ctx = example_chain
      and msg = "\<lparr>fe_Authority = ''gov'', fe_StorageProvider = ''op1''\<rparr>"]
    StorageProviderForcedExit_by_authority [where k = example_keeper
      and ctx = "example_chain_exiting\<lparr>params := (params example_chain)\<lparr>SpConcurrentExitNum := 2\<rparr>\<rparr>"
      and msg = "\<lparr>fe_Authority = ''gov'', fe_StorageProvider = ''op3''\<rparr>"]
    StorageProviderForcedExit_by_authority [where k = example_keeper
      and ctx = "example_chain_exiting\<lparr>params := (params example_chain)\<lparr>SpConcurrentExitNum := 2\<rparr>\<rparr>"
      and msg = "\<lparr>fe_Authority = ''gov'', fe_StorageProvider = ''op1''\<rparr>"]
    StorageProviderForcedExit_by_authority [where k = example_keeper and ctx = example_chain_exiting
      and msg = "\<lparr>fe_Authority = ''gov'', fe_StorageProvider = ''op1''\<rparr>"]
    StorageProviderForcedExit_by_authority [where k = example_keeper and ctx = example_chain
      and msg = "\<lparr>fe_Authority = ''mallory'', fe_StorageProvider = ''op1''\<rparr>"]
  by (simp add: StorageProviderForcedExit_def Let_def example_defs store_defs)

section \<open>CompleteStorageProviderExit\<close>






section \<open>Settle over a set of groups\<close>





text \<open>After Pampas the loop does not look at the caller.\<close>

lemma settle_gvgs_pampas_any_caller:
  "settle_gvgs k True sp ctx order = settle_gvgs k True None ctx order"
  by (induction order arbitrary: ctx) (auto split: option.splits sum.splits prod.splits)









section \<open>CreateGlobalVirtualGroup\<close>

text \<open>
  C2 (the code departs from it). The example chain caps a family at 1 group. On the chain
  without any family, provider 1 creates a group with the secondaries 2 and 3 in a new
  family, which becomes family 1 with the one group the cap allows. Provider 1 then asks
  for another group in family 1, with the secondaries 3 and 2. The handler compares the
  cap with the number of groups the family has before the new one is attached, and
  refuses only when the cap is below that number: the second request succeeds as well,
  and family 1 ends with two groups under a cap of 1.
\<close>

theorem CreateGlobalVirtualGroup_exceeds_family_cap:
  "MaxGlobalVirtualGroupNumPerFamily_of example_chain_fresh = 1 \<and>
   GetGVGFamily example_chain_fresh 1 = None \<and>
   fst (CreateGlobalVirtualGroup example_keeper example_chain_fresh
          (example_create\<lparr>cr_FamilyId := 0, cr_SecondarySpIds := [2, 3]\<rparr>)) = Inr () \<and>
   map_option fam_GlobalVirtualGroupIds
     (GetGVGFamily
        (snd (CreateGlobalVirtualGroup example_keeper example_chain_fresh
                (example_create\<lparr>cr_FamilyId := 0, cr_SecondarySpIds := [2, 3]\<rparr>))) 1)
     = Some [1] \<and>
   fst (CreateGlobalVirtualGroup example_keeper
          (snd (CreateGlobalVirtualGroup example_keeper example_chain_fresh
                  (example_create\<lparr>cr_FamilyId := 0, cr_SecondarySpIds := [2, 3]\<rparr>)))
          example_create) = Inr () \<and>
   map_option fam_GlobalVirtualGroupIds
     (GetGVGFamily
        (snd (CreateGlobalVirtualGroup example_keeper
                (snd (CreateGlobalVirtualGroup example_keeper example_chain_fresh
                        (example_create\<lparr>cr_FamilyId := 0, cr_SecondarySpIds := [2, 3]\<rparr>)))
                example_create)) 1)
     = Some [1, 2] \<and>
   MaxGlobalVirtualGroupNumPerFamily_of
     (snd (CreateGlobalVirtualGroup example_keeper
             (snd (CreateGlobalVirtualGroup example_keeper example_chain_fresh
                     (example_create\<lparr>cr_FamilyId := 0, cr_SecondarySpIds := [2, 3]\<rparr>)))
             example_create)) = 1"
  by (simp add: CreateGlobalVirtualGroup_def store_new_gvg_def check_secondary_sp_ids_def
      Let_def example_defs store_defs)

text \<open>
  The inner loop of the duplicate check as a comparison of lists: against a non-empty
  requested sequence it reports a duplicate exactly when the requested sequence is a
  prefix of the existing group's sequence; against an empty requested sequence it reads
  out of range as soon as the existing group has a secondary.
\<close>

lemma compare_secondary_sps_from:
  assumes "i < length ys"
  shows "compare_secondary_sps i xs ys =
     (if take (length ys - i) xs = drop i ys then Some ErrDuplicateGVG else None)"
  using assms
proof (induction xs arbitrary: i)
  case Nil
  then show ?case by simp
next
  case (Cons x xs)
  from Cons.prems have d: "drop i ys = ys ! i # drop (Suc i) ys"
    by (simp add: Cons_nth_drop_Suc)
  from Cons.prems obtain n where n: "length ys - i = Suc n"
    by (cases "length ys - i") auto
  show ?case
  proof (cases "x = ys ! i")
    case False
    with Cons.prems d n show ?thesis by simp
  next
    case True
    show ?thesis
    proof (cases "Suc i = length ys")
      case last: True
      then have "n = 0" using n by simp
      with True Cons.prems d n last show ?thesis by simp
    next
      case False
      with Cons.prems have lt: "Suc i < length ys" by simp
      have "length ys - Suc i = n" using n by simp
      with Cons.IH [OF lt] True Cons.prems d n False show ?thesis
        by (simp add: of_nat_diff)
    qed
  qed
qed

lemma compare_secondary_sps_prefix:
  "compare_secondary_sps 0 xs ys =
     (if ys = [] then (if xs = [] then None else Some (Panic ''index out of range''))
      else if take (length ys) xs = ys then Some ErrDuplicateGVG else None)"
proof (cases "ys = []")
  case True
  then show ?thesis by (cases xs) simp_all
next
  case False
  then show ?thesis using compare_secondary_sps_from [of 0 ys xs] by simp
qed

text \<open>
  C3 (the code departs from it). All upgrades are active on the example chain and two
  secondaries are expected. Family 1 holds one group, with the secondaries 2, 3, 4.
  A request for a group with the secondaries 2, 3 is refused as a duplicate, although no
  group of the family has that sequence: the check walks the existing group's sequence
  and stops with the duplicate error at the last position of the requested one, so any
  existing sequence that merely begins with the requested one counts as equal.
\<close>

theorem CreateGlobalVirtualGroup_prefix_is_duplicate:
  "IsUpgraded example_chain Manchurian \<and>
   map_option fam_GlobalVirtualGroupIds (GetGVGFamily example_chain 1) = Some [1] \<and>
   map_option gvg_SecondarySpIds (GetGVG example_chain 1) = Some [2, 3, 4] \<and>
   cr_SecondarySpIds (example_create\<lparr>cr_SecondarySpIds := [2, 3]\<rparr>) = [2, 3] \<and>
   CreateGlobalVirtualGroup example_keeper example_chain
       (example_create\<lparr>cr_SecondarySpIds := [2, 3]\<rparr>)
     = (Inl ErrDuplicateGVG, example_chain)"
  by (simp add: CreateGlobalVirtualGroup_def store_new_gvg_def check_secondary_sp_ids_def
      Let_def example_defs store_defs)

end
